theory Spec2Isabelle
  imports Complex_Main
begin

section \<open>Data model of \<^verbatim>\<open>cryodrgn/commands_utils/fsc.py\<close>\<close>

text \<open>
  Floating-point numbers are idealised: a finite float is an exact real number, and the
  only special value kept is NaN, which the code produces as \<open>0/0\<close> on a shell without
  power and which it tests with \<^verbatim>\<open>np.isnan\<close>.
\<close>

datatype pyfloat = Fin real | NaN

text \<open>The exceptions the module raises, one constructor per raise site or failing operation.\<close>

datatype error =
    ValueError_volume_count nat
  | ValueError_different_apix
  | ValueError_corrected_with_three_volumes
  | ValueError_fsc_length nat nat
  | ValueError_frame_lengths
  | TypeError_tight_mask
  | TypeError_multiple_values string
  | TypeError_unexpected_keyword string
  | TypeError_too_many_positional
  | TypeError_missing_argument string
  | TypeError_argument_type string
  | TypeError_none_operand
  | AssertionError
  | IndexError
  | KeyError string
  | ZeroDivisionError

text \<open>
  A cubic array: \<open>shape0\<close> is \<^verbatim>\<open>shape[0]\<close> and \<open>vox\<close> reads the entry at an index triple
  \<open>(i0, i1, i2)\<close>. Arrays handed to one call are taken to have the same shape, so every
  read the code makes is in range.
\<close>

type_synonym idx = "nat \<times> nat \<times> nat"

record 'a tensor =
  shape0 :: nat
  vox :: "idx \<Rightarrow> 'a"

text \<open>A two-column data frame \<^verbatim>\<open>(pixres, fsc)\<close> is the list of its rows.\<close>

type_synonym frame = "(real \<times> pyfloat) list"

text \<open>What \<^verbatim>\<open>to_csv\<close> is given: the columns with their headers (the rendering is pandas').\<close>

type_synonym csv = "(string \<times> pyfloat list) list"

text \<open>
  The calls to collaborators outside the module, in the order they are made. Logging is
  not recorded.
\<close>

datatype event =
    FromFile string
  | ParseMrc string
  | FftnCenter
  | SphericalWindowMask
  | CosineDilationMask
  | ToCsv string csv
  | CreateFscPlot string

text \<open>
  The mutable state a call works on: the two tensor objects passed as the first two
  arguments (\<^verbatim>\<open>*=\<close> multiplies them in place, so the caller sees the change), the state
  of the process-wide random generator, and the trace of collaborator calls. The two
  tensors are distinct objects, as the ones \<^verbatim>\<open>main\<close> loads from two files are.
\<close>

record 'g heap =
  tensor1 :: "real tensor"
  tensor2 :: "real tensor"
  rng :: 'g
  trace :: "event list"

text \<open>The collaborators, which are not part of the module, are parameters.\<close>

record image_source =
  apix :: "real option"
  images :: "real tensor"

record 'g env =
  fftn_center :: "real tensor \<Rightarrow> complex tensor"
  shuffle :: "'g \<Rightarrow> nat list \<Rightarrow> nat list \<times> 'g"
  spherical_window_mask :: "nat \<Rightarrow> real tensor"
  cosine_dilation_mask :: "real tensor \<Rightarrow> int \<Rightarrow> int \<Rightarrow> real \<Rightarrow> real tensor"
  from_file :: "string \<Rightarrow> image_source"
  parse_mrc :: "string \<Rightarrow> real tensor"

section \<open>Array primitives\<close>

text \<open>\<^verbatim>\<open>vol *= mask\<close>: the entries of the same object are multiplied by the mask's.\<close>

definition imul :: "real tensor \<Rightarrow> real tensor \<Rightarrow> real tensor" where
  "imul vol m = vol\<lparr>vox := (\<lambda>x. vox vol x * vox m x)\<rparr>"

text \<open>All index triples of a \<open>D \<times> D \<times> D\<close> array in row-major order, as \<^verbatim>\<open>np.where\<close> lists them.\<close>

definition all_idx :: "nat \<Rightarrow> idx list" where
  "all_idx D = List.product [0..<D] (List.product [0..<D] [0..<D])"

definition np_where :: "nat \<Rightarrow> (idx \<Rightarrow> bool) \<Rightarrow> idx list" where
  "np_where D m = filter m (all_idx D)"

text \<open>\<^verbatim>\<open>np.vdot(a, b)\<close> conjugates its first argument.\<close>

definition np_vdot :: "complex list \<Rightarrow> complex list \<Rightarrow> complex" where
  "np_vdot a b = sum_list (map2 (\<lambda>x y. cnj x * y) a b)"

text \<open>
  \<^verbatim>\<open>float((np.vdot(v1, v2) / (np.vdot(v1, v1) * np.vdot(v2, v2)) ** 0.5).real)\<close>. The
  denominator vanishes only when one of the two vectors is zero, and then the numerator
  is zero too: numpy returns NaN for \<open>0/0\<close>.
\<close>

definition shell_corr :: "complex list \<Rightarrow> complex list \<Rightarrow> pyfloat" where
  "shell_corr v1 v2 =
     (let den = csqrt (np_vdot v1 v1 * np_vdot v2 v2)
      in if den = 0 then NaN else Fin (Re (np_vdot v1 v2 / den)))"

section \<open>\<^verbatim>\<open>get_fftn_dists\<close>\<close>

text \<open>\<^verbatim>\<open>np.arange(-resolution // 2, resolution // 2)\<close>; Python's \<^verbatim>\<open>//\<close> is floor division.\<close>

definition coord_axis :: "nat \<Rightarrow> int list" where
  "coord_axis resolution = [(- int resolution) div 2 .. int resolution div 2 - 1]"

definition dists_of :: "nat \<Rightarrow> real tensor" where
  "dists_of resolution =
     (let x = coord_axis resolution
      in \<lparr>shape0 = length x,
          vox = (\<lambda>(i0, i1, i2). sqrt (real_of_int ((x ! i2)\<^sup>2 + (x ! i1)\<^sup>2 + (x ! i0)\<^sup>2)))\<rparr>)"

definition get_fftn_dists :: "nat \<Rightarrow> error + real tensor" where
  "get_fftn_dists resolution =
     (let dists = dists_of resolution; c = resolution div 2
      in if \<not> c < shape0 dists then Inl IndexError
         else if vox dists (c, c, c) \<noteq> 0 then Inl AssertionError
         else Inr dists)"

section \<open>\<^verbatim>\<open>calculate_fsc\<close>\<close>

text \<open>
  The body of \<^verbatim>\<open>for i in range(1, D // 2)\<close>; the loop state is \<^verbatim>\<open>(prev_mask, fsc)\<close>.
\<close>

fun fsc_loop ::
  "real tensor \<Rightarrow> complex tensor \<Rightarrow> complex tensor \<Rightarrow> nat \<Rightarrow> nat list \<Rightarrow>
   (idx \<Rightarrow> bool) \<times> pyfloat list \<Rightarrow> (idx \<Rightarrow> bool) \<times> pyfloat list" where
  "fsc_loop dists vol1 vol2 D [] s = s"
| "fsc_loop dists vol1 vol2 D (i # rest) s =
     (let prev_mask = fst s; fsc = snd s;
          mask = (\<lambda>x. vox dists x < real i);
          shell = np_where D (\<lambda>x. mask x \<and> \<not> prev_mask x);
          v1 = map (vox vol1) shell;
          v2 = map (vox vol2) shell
      in fsc_loop dists vol1 vol2 D rest (mask, fsc @ [shell_corr v1 v2]))"

text \<open>\<^verbatim>\<open>pd.DataFrame(dict(pixres=..., fsc=...))\<close> refuses columns of different lengths.\<close>

definition DataFrame :: "real list \<Rightarrow> pyfloat list \<Rightarrow> error + frame" where
  "DataFrame pixres fsc =
     (if length pixres \<noteq> length fsc then Inl ValueError_frame_lengths
      else Inr (zip pixres fsc))"

text \<open>\<^verbatim>\<open>np.arange(D // 2) / D\<close>\<close>

definition pixres_axis :: "nat \<Rightarrow> real list" where
  "pixres_axis D = map (\<lambda>i. real i / real D) [0..<D div 2]"

definition frame_csv :: "frame \<Rightarrow> csv" where
  "frame_csv fr = [(''pixres'', map (Fin \<circ> fst) fr), (''fsc'', map snd fr)]"

definition apply_mask :: "real tensor option \<Rightarrow> 'g heap \<Rightarrow> 'g heap" where
  "apply_mask initial_mask h =
     (case initial_mask of
        None \<Rightarrow> h
      | Some m \<Rightarrow> h\<lparr>tensor1 := imul (tensor1 h) m, tensor2 := imul (tensor2 h) m\<rparr>)"

definition calculate_fsc ::
  "'g env \<Rightarrow> real tensor option \<Rightarrow> string option \<Rightarrow> 'g heap \<Rightarrow> 'g heap \<times> (error + frame)" where
  "calculate_fsc E initial_mask out_file h0 =
     (let h = apply_mask initial_mask h0;
          D = shape0 (tensor1 h)
      in case get_fftn_dists D of
           Inl e \<Rightarrow> (h, Inl e)
         | Inr dists \<Rightarrow>
            (let vol1 = fftn_center E (tensor1 h);
                 vol2 = fftn_center E (tensor2 h);
                 h = h\<lparr>trace := trace h @ [FftnCenter, FftnCenter]\<rparr>;
                 fsc = snd (fsc_loop dists vol1 vol2 D [1..<D div 2] (\<lambda>x. False, [Fin 1]))
             in case DataFrame (pixres_axis D) fsc of
                  Inl e \<Rightarrow> (h, Inl e)
                | Inr fsc_vals \<Rightarrow>
                   (case out_file of
                      None \<Rightarrow> (h, Inr fsc_vals)
                    | Some f \<Rightarrow>
                       (h\<lparr>trace := trace h @ [ToCsv f (frame_csv fsc_vals)]\<rparr>, Inr fsc_vals))))"

section \<open>\<^verbatim>\<open>get_fsc_thresholds\<close>\<close>

text \<open>\<^verbatim>\<open>fsc >= cutoff\<close> on one entry: a comparison with NaN is false.\<close>

definition pf_ge :: "pyfloat \<Rightarrow> real \<Rightarrow> bool" where
  "pf_ge f cutoff = (case f of Fin x \<Rightarrow> cutoff \<le> x | NaN \<Rightarrow> False)"

text \<open>
  One of the two blocks of \<^verbatim>\<open>get_fsc_thresholds\<close>:
  \<^verbatim>\<open>if ((pixres > 0) & (fsc >= c)).any(): res = pixres[fsc >= c].max() else: res = None\<close>.
\<close>

definition threshold_at :: "frame \<Rightarrow> real \<Rightarrow> real option" where
  "threshold_at fsc_vals cutoff =
     (if list_ex (\<lambda>r. 0 < fst r \<and> pf_ge (snd r) cutoff) fsc_vals
      then Some (Max (set (map fst (filter (\<lambda>r. pf_ge (snd r) cutoff) fsc_vals))))
      else None)"

text \<open>The pixel size and \<^verbatim>\<open>verbose\<close> only change what is logged.\<close>

definition get_fsc_thresholds :: "frame \<Rightarrow> real \<Rightarrow> bool \<Rightarrow> real option \<times> real option" where
  "get_fsc_thresholds fsc_vals apix_val verbose =
     (threshold_at fsc_vals (1 / 2), threshold_at fsc_vals (143 / 1000))"

section \<open>\<^verbatim>\<open>correct_fsc\<close>\<close>

text \<open>Python's \<^verbatim>\<open>int(x)\<close> on a float truncates towards zero.\<close>

definition py_int :: "real \<Rightarrow> int" where
  "py_int x = (if 0 \<le> x then \<lfloor>x\<rfloor> else \<lceil>x\<rceil>)"

definition np_clip :: "pyfloat \<Rightarrow> real \<Rightarrow> real \<Rightarrow> pyfloat" where
  "np_clip x lo hi = (case x of NaN \<Rightarrow> NaN | Fin v \<Rightarrow> Fin (min (max v lo) hi))"

text \<open>\<^verbatim>\<open>(fsc[i] - p) / (1 - p)\<close> for a finite \<open>p\<close> other than 1.\<close>

definition null_rescale :: "pyfloat \<Rightarrow> real \<Rightarrow> pyfloat" where
  "null_rescale f p = (case f of NaN \<Rightarrow> NaN | Fin v \<Rightarrow> Fin ((v - p) / (1 - p)))"

text \<open>\<^verbatim>\<open>vol[phase_mask] = values\<close>: the selected entries, in row-major order, get the values.\<close>

definition masked_assign :: "idx list \<Rightarrow> 'a list \<Rightarrow> 'a tensor \<Rightarrow> 'a tensor" where
  "masked_assign region vals vol =
     vol\<lparr>vox := fold (\<lambda>xv f. f(fst xv := snd xv)) (zip region vals) (vox vol)\<rparr>"

text \<open>\<^verbatim>\<open>vol[phase_mask] = vol[phase_mask][phase_inds]\<close>\<close>

definition scramble :: "idx list \<Rightarrow> nat list \<Rightarrow> complex tensor \<Rightarrow> complex tensor" where
  "scramble region phase_inds vol =
     masked_assign region (map (\<lambda>k. map (vox vol) region ! k) phase_inds) vol"

text \<open>
  The phase randomisation of \<^verbatim>\<open>correct_fsc\<close>: the index list is shuffled in place before
  each of the two assignments, so the second permutation is a shuffle of the first.
\<close>

definition randomize_phases ::
  "'g env \<Rightarrow> nat \<Rightarrow> real tensor \<Rightarrow> int \<Rightarrow> complex tensor \<Rightarrow> complex tensor \<Rightarrow> 'g \<Rightarrow>
   (complex tensor \<times> complex tensor) \<times> 'g" where
  "randomize_phases E D dists phase_D vol1 vol2 g =
     (let region = np_where D (\<lambda>x. real_of_int phase_D < vox dists x);
          s1 = shuffle E g [0..<length region];
          vol1' = scramble region (fst s1) vol1;
          s2 = shuffle E (snd s1) (fst s1);
          vol2' = scramble region (fst s2) vol2
      in ((vol1', vol2'), snd s2))"

text \<open>The update of \<^verbatim>\<open>fsc[i]\<close> from the null correlation \<open>p\<close>.\<close>

definition null_correct :: "pyfloat list \<Rightarrow> nat \<Rightarrow> pyfloat \<Rightarrow> pyfloat list" where
  "null_correct fsc i p =
     (if p = Fin 1 then fsc[i := Fin 0]
      else if p \<noteq> NaN then fsc[i := np_clip (null_rescale (fsc ! i) (case p of Fin v \<Rightarrow> v | NaN \<Rightarrow> 0)) 0 1]
      else fsc)"

fun correct_loop ::
  "real tensor \<Rightarrow> complex tensor \<Rightarrow> complex tensor \<Rightarrow> nat \<Rightarrow> int \<Rightarrow> nat list \<Rightarrow>
   (idx \<Rightarrow> bool) \<times> pyfloat list \<Rightarrow> (idx \<Rightarrow> bool) \<times> pyfloat list" where
  "correct_loop dists vol1 vol2 D phase_D [] s = s"
| "correct_loop dists vol1 vol2 D phase_D (i # rest) s =
     (let prev_mask = fst s; fsc = snd s;
          mask = (\<lambda>x. vox dists x < real i);
          shell = np_where D (\<lambda>x. mask x \<and> \<not> prev_mask x);
          fsc' = (if phase_D < int i
                  then null_correct fsc i (shell_corr (map (vox vol1) shell) (map (vox vol2) shell))
                  else fsc)
      in correct_loop dists vol1 vol2 D phase_D rest (mask, fsc'))"

definition correct_fsc ::
  "'g env \<Rightarrow> frame \<Rightarrow> real \<Rightarrow> real tensor option \<Rightarrow> 'g heap \<Rightarrow> 'g heap \<times> (error + frame)" where
  "correct_fsc E fsc_vals randomization_threshold initial_mask h0 =
     (let h = apply_mask initial_mask h0;
          D = shape0 (tensor1 h)
      in if length fsc_vals \<noteq> D div 2
         then (h, Inl (ValueError_fsc_length (D div 2 + 1) (length fsc_vals)))
         else case get_fftn_dists D of
           Inl e \<Rightarrow> (h, Inl e)
         | Inr dists \<Rightarrow>
            (let vol1 = fftn_center E (tensor1 h);
                 vol2 = fftn_center E (tensor2 h);
                 phase_D = py_int (randomization_threshold * real (shape0 vol1));
                 r = randomize_phases E D dists phase_D vol1 vol2 (rng h);
                 h = h\<lparr>rng := snd r, trace := trace h @ [FftnCenter, FftnCenter]\<rparr>;
                 fsc = snd (correct_loop dists (fst (fst r)) (snd (fst r)) D phase_D
                              [1..<D div 2] (\<lambda>x. False, map snd fsc_vals))
             in (h, DataFrame (pixres_axis D) fsc)))"

section \<open>\<^verbatim>\<open>calculate_cryosparc_fscs\<close>\<close>

text \<open>The \<^verbatim>\<open>tight_mask\<close> argument is dispatched on its run-time type.\<close>

datatype tight_mask_arg =
    DilationParams int int
  | ExplicitMaskArray "real tensor"
  | OtherType

text \<open>A dictionary is an association list in insertion order.\<close>

definition dict_get :: "(string \<times> 'a) list \<Rightarrow> string \<Rightarrow> error + 'a" where
  "dict_get d k = (case map_of d k of None \<Rightarrow> Inl (KeyError k) | Some v \<Rightarrow> Inr v)"

text \<open>
  \<^verbatim>\<open>{lbl: calculate_fsc(half_vol1, half_vol2, initial_mask=mask) for lbl, mask in masks.items()}\<close>:
  the calls run in the order of the dictionary, all on the same two tensor objects.
\<close>

fun fsc_for_masks ::
  "'g env \<Rightarrow> (string \<times> real tensor option) list \<Rightarrow> 'g heap \<Rightarrow>
   'g heap \<times> (error + (string \<times> frame) list)" where
  "fsc_for_masks E [] h = (h, Inr [])"
| "fsc_for_masks E (lm # rest) h =
     (case calculate_fsc E (snd lm) None h of
        (h1, Inl e) \<Rightarrow> (h1, Inl e)
      | (h1, Inr fsc_df) \<Rightarrow>
         (case fsc_for_masks E rest h1 of
            (h2, Inl e) \<Rightarrow> (h2, Inl e)
          | (h2, Inr others) \<Rightarrow> (h2, Inr ((fst lm, fsc_df) # others))))"

record curves =
  curve_vals :: "(string \<times> frame) list"
  curve_thresh :: "(string \<times> real option) list"

text \<open>The masks dictionary (lines 241-261).\<close>

definition build_masks ::
  "'g env \<Rightarrow> real tensor \<Rightarrow> real tensor option \<Rightarrow> int \<times> int \<Rightarrow> tight_mask_arg \<Rightarrow> real \<Rightarrow>
   'g heap \<Rightarrow> 'g heap \<times> (error + (string \<times> real tensor option) list)" where
  "build_masks E full_vol sphere_mask loose_mask tight_mask Apix_val h0 =
     (let sm = (case sphere_mask of
                  None \<Rightarrow> (spherical_window_mask E (shape0 full_vol), [SphericalWindowMask])
                | Some m \<Rightarrow> (m, []));
          loose = cosine_dilation_mask E full_vol (fst loose_mask) (snd loose_mask) Apix_val;
          h = h0\<lparr>trace := trace h0 @ snd sm @ [CosineDilationMask]\<rparr>;
          masks = [(''No Mask'', None), (''Spherical'', Some (fst sm)), (''Loose'', Some loose)]
      in case tight_mask of
           DilationParams dilation edge_dist \<Rightarrow>
             (h\<lparr>trace := trace h @ [CosineDilationMask]\<rparr>,
              Inr (masks @ [(''Tight'', Some (cosine_dilation_mask E full_vol dilation edge_dist Apix_val))]))
         | ExplicitMaskArray m \<Rightarrow> (h, Inr (masks @ [(''Tight'', Some m)]))
         | OtherType \<Rightarrow> (h, Inl TypeError_tight_mask))"

text \<open>The \<^verbatim>\<open>Corrected\<close> entry (lines 272-285).\<close>

definition add_corrected ::
  "'g env \<Rightarrow> (string \<times> real tensor option) list \<Rightarrow> real \<Rightarrow> curves \<Rightarrow> 'g heap \<Rightarrow>
   'g heap \<times> (error + curves)" where
  "add_corrected E masks Apix_val cs h =
     (case dict_get (curve_thresh cs) ''Tight'' of
        Inl e \<Rightarrow> (h, Inl e)
      | Inr tight_thresh \<Rightarrow>
        (case dict_get (curve_vals cs) ''Tight'' of
           Inl e \<Rightarrow> (h, Inl e)
         | Inr tight_vals \<Rightarrow>
           (case tight_thresh of
              Some t \<Rightarrow>
                (case dict_get masks ''Tight'' of
                   Inl e \<Rightarrow> (h, Inl e)
                 | Inr tight_m \<Rightarrow>
                   (case correct_fsc E tight_vals (0.75 * t) tight_m h of
                      (h1, Inl e) \<Rightarrow> (h1, Inl e)
                    | (h1, Inr corrected_vals) \<Rightarrow>
                       (h1, Inr \<lparr>curve_vals = curve_vals cs @ [(''Corrected'', corrected_vals)],
                                 curve_thresh = curve_thresh cs @
                                   [(''Corrected'', snd (get_fsc_thresholds corrected_vals Apix_val False))]\<rparr>)))
            | None \<Rightarrow>
                (h, Inr \<lparr>curve_vals = curve_vals cs @ [(''Corrected'', tight_vals)],
                         curve_thresh = curve_thresh cs @ [(''Corrected'', tight_thresh)]\<rparr>))))"

text \<open>
  Lines 241-285, the first part of the body of \<^verbatim>\<open>calculate_cryosparc_fscs\<close>: the dictionaries
  \<^verbatim>\<open>fsc_vals\<close> and \<^verbatim>\<open>fsc_thresh\<close> of the five curves and their 0.143 thresholds, as the rest
  of the body (below) reads them.
\<close>

definition cryosparc_curves ::
  "'g env \<Rightarrow> real tensor \<Rightarrow> real tensor option \<Rightarrow> int \<times> int \<Rightarrow> tight_mask_arg \<Rightarrow> real \<Rightarrow>
   'g heap \<Rightarrow> 'g heap \<times> (error + curves)" where
  "cryosparc_curves E full_vol sphere_mask loose_mask tight_mask Apix_val h0 =
     (case build_masks E full_vol sphere_mask loose_mask tight_mask Apix_val h0 of
        (h, Inl e) \<Rightarrow> (h, Inl e)
      | (h, Inr masks) \<Rightarrow>
        (case fsc_for_masks E masks h of
           (h1, Inl e) \<Rightarrow> (h1, Inl e)
         | (h1, Inr vals) \<Rightarrow>
            add_corrected E masks Apix_val
              \<lparr>curve_vals = vals,
               curve_thresh = map (\<lambda>lv. (fst lv, snd (get_fsc_thresholds (snd lv) Apix_val False))) vals\<rparr>
              h1))"

record table =
  tbl_index :: "real list"
  tbl_columns :: "(string \<times> pyfloat list) list"

definition table_csv :: "table \<Rightarrow> csv" where
  "table_csv t = ('''', map Fin (tbl_index t)) # tbl_columns t"

text \<open>
  Lines 287-311. With a plot file, \<^verbatim>\<open>(1 / fsc_val) * Apix\<close> is evaluated for every
  threshold, and \<^verbatim>\<open>1 / None\<close> is a TypeError. The thresholds are numpy floats, for which
  a division by zero is not an exception.
\<close>

definition calculate_cryosparc_fscs ::
  "'g env \<Rightarrow> real tensor \<Rightarrow> real tensor option \<Rightarrow> int \<times> int \<Rightarrow> tight_mask_arg \<Rightarrow> real \<Rightarrow>
   string option \<Rightarrow> string option \<Rightarrow> 'g heap \<Rightarrow> 'g heap \<times> (error + table)" where
  "calculate_cryosparc_fscs E full_vol sphere_mask loose_mask tight_mask Apix_val out_file plot_file h0 =
     (case cryosparc_curves E full_vol sphere_mask loose_mask tight_mask Apix_val h0 of
        (h, Inl e) \<Rightarrow> (h, Inl e)
      | (h, Inr cs) \<Rightarrow>
        (if plot_file \<noteq> None \<and> list_ex (\<lambda>lt. snd lt = None) (curve_thresh cs)
         then (h, Inl TypeError_none_operand)
         else
          (let h = (case plot_file of
                      None \<Rightarrow> h
                    | Some f \<Rightarrow> h\<lparr>trace := trace h @ [CreateFscPlot f]\<rparr>);
               pixres_index = remdups (map (\<lambda>lv. map fst (snd lv)) (curve_vals cs))
           in if length pixres_index \<noteq> 1 then (h, Inl AssertionError)
              else
               (let t = \<lparr>tbl_index = hd pixres_index,
                         tbl_columns = map (\<lambda>lv. (fst lv, map snd (snd lv))) (curve_vals cs)\<rparr>
                in case out_file of
                     None \<Rightarrow> (h, Inr t)
                   | Some f \<Rightarrow> (h\<lparr>trace := trace h @ [ToCsv f (table_csv t)]\<rparr>, Inr t)))))"

section \<open>\<^verbatim>\<open>main\<close>\<close>

text \<open>\<^verbatim>\<open>--plot\<close> has \<^verbatim>\<open>nargs="?"\<close> and \<^verbatim>\<open>const=True\<close>: the flag alone, or a path.\<close>

datatype plot_arg = PlotFlag | PlotPath string

record args =
  volumes :: "string list"
  mask :: "string option"
  corrected :: "real option"
  plot :: "plot_arg option"
  Apix :: "real option"
  outtxt :: "string option"

text \<open>What a finished run has computed: the curve (two volumes) or the table (three).\<close>

datatype outcome = Curve frame | Table table

text \<open>Truthiness of an optional string and of \<^verbatim>\<open>args.plot\<close>.\<close>

definition truthy_str :: "string option \<Rightarrow> bool" where
  "truthy_str s = (case s of None \<Rightarrow> False | Some t \<Rightarrow> t \<noteq> [])"

definition truthy_plot :: "plot_arg option \<Rightarrow> bool" where
  "truthy_plot p = (case p of None \<Rightarrow> False | Some PlotFlag \<Rightarrow> True | Some (PlotPath f) \<Rightarrow> f \<noteq> [])"

text \<open>
  Lines 325-335: the pixel size. \<^verbatim>\<open>if args.Apix:\<close> is false for an absent value and
  for 0.0; the set of the volumes' pixel sizes is the list of the distinct ones.
\<close>

definition resolve_apix :: "real option \<Rightarrow> image_source list \<Rightarrow> error + real" where
  "resolve_apix Apix_arg vols =
     (if Apix_arg \<noteq> None \<and> Apix_arg \<noteq> Some 0 then Inr (the Apix_arg)
      else
       (let vol_apixs = remdups (map the (filter (\<lambda>a. a \<noteq> None) (map apix vols)))
        in if length vol_apixs = 0 then Inr 1
           else if length vol_apixs = 1 then Inr (vol_apixs ! 0)
           else Inl ValueError_different_apix))"

text \<open>\<^verbatim>\<open>os.path.splitext(p)[0]\<close>: the extension starts at the last dot of the last path
  component, unless only dots precede it there.\<close>

definition splitext_root :: "string \<Rightarrow> string" where
  "splitext_root p =
     (let rb = takeWhile (\<lambda>c. c \<noteq> CHR ''/'') (rev p)
      in if CHR ''.'' \<notin> set rb then p
         else
          (let ext = takeWhile (\<lambda>c. c \<noteq> CHR ''.'') rb;
               stem = drop (Suc (length ext)) rb
           in if list_all (\<lambda>c. c = CHR ''.'') stem then p
              else take (length p - Suc (length ext)) p))"

text \<open>Lines 337-346.\<close>

definition plot_file_of :: "args \<Rightarrow> string option" where
  "plot_file_of a =
     (if truthy_plot (plot a)
      then (case plot a of
              Some (PlotPath f) \<Rightarrow> Some f
            | _ \<Rightarrow> (if truthy_str (outtxt a)
                    then Some (splitext_root (the (outtxt a)) @ ''.png'')
                    else Some ''fsc-plot.png''))
      else None)"

subsection \<open>Binding the arguments of a call\<close>

text \<open>
  Python is dynamically typed: a call binds its positional arguments to the parameters
  in order, then its keyword arguments by name, and raises TypeError when a parameter
  gets two values, a keyword is unknown, or a parameter without default is left unset.
\<close>

datatype pyval = PTensor "real tensor" | PNone | PFloat real | PStr string

fun bind_positional :: "string list \<Rightarrow> pyval list \<Rightarrow> error + (string \<times> pyval) list" where
  "bind_positional ps [] = Inr []"
| "bind_positional [] (v # vs) = Inl TypeError_too_many_positional"
| "bind_positional (p # ps) (v # vs) =
     (case bind_positional ps vs of Inl e \<Rightarrow> Inl e | Inr b \<Rightarrow> Inr ((p, v) # b))"

fun bind_keywords ::
  "string list \<Rightarrow> (string \<times> pyval) list \<Rightarrow> (string \<times> pyval) list \<Rightarrow> error + (string \<times> pyval) list" where
  "bind_keywords ps bound [] = Inr bound"
| "bind_keywords ps bound (kv # kws) =
     (if fst kv \<notin> set ps then Inl (TypeError_unexpected_keyword (fst kv))
      else if map_of bound (fst kv) \<noteq> None then Inl (TypeError_multiple_values (fst kv))
      else bind_keywords ps (bound @ [kv]) kws)"

fun bind_defaults ::
  "string list \<Rightarrow> (string \<times> pyval) list \<Rightarrow> (string \<times> pyval) list \<Rightarrow> error + (string \<times> pyval) list" where
  "bind_defaults [] defaults bound = Inr bound"
| "bind_defaults (p # ps) defaults bound =
     (if map_of bound p \<noteq> None then bind_defaults ps defaults bound
      else case map_of defaults p of
             None \<Rightarrow> Inl (TypeError_missing_argument p)
           | Some d \<Rightarrow> bind_defaults ps defaults (bound @ [(p, d)]))"

definition bind_args ::
  "string list \<Rightarrow> (string \<times> pyval) list \<Rightarrow> pyval list \<Rightarrow> (string \<times> pyval) list \<Rightarrow>
   error + (string \<times> pyval) list" where
  "bind_args ps defaults pos kws =
     (case bind_positional ps pos of
        Inl e \<Rightarrow> Inl e
      | Inr b \<Rightarrow>
        (case bind_keywords ps b kws of
           Inl e \<Rightarrow> Inl e
         | Inr b' \<Rightarrow> bind_defaults ps defaults b'))"

text \<open>
  The signature \<^verbatim>\<open>calculate_fsc(vol1, vol2, initial_mask=None, out_file=None)\<close> and a
  call of it with untyped arguments. A float given as mask multiplies every entry.
\<close>

definition calculate_fsc_params :: "string list" where
  "calculate_fsc_params = [''vol1'', ''vol2'', ''initial_mask'', ''out_file'']"

definition calculate_fsc_defaults :: "(string \<times> pyval) list" where
  "calculate_fsc_defaults = [(''initial_mask'', PNone), (''out_file'', PNone)]"

definition call_calculate_fsc ::
  "'g env \<Rightarrow> pyval list \<Rightarrow> (string \<times> pyval) list \<Rightarrow> 'g \<Rightarrow> event list \<Rightarrow>
   event list \<times> (error + frame)" where
  "call_calculate_fsc E pos kws g tr =
     (case bind_args calculate_fsc_params calculate_fsc_defaults pos kws of
        Inl e \<Rightarrow> (tr, Inl e)
      | Inr b \<Rightarrow>
        (case (map_of b ''vol1'', map_of b ''vol2'', map_of b ''initial_mask'', map_of b ''out_file'') of
           (Some (PTensor v1), Some (PTensor v2), Some m, Some f) \<Rightarrow>
             (case (case m of
                      PNone \<Rightarrow> Inr None
                    | PTensor t \<Rightarrow> Inr (Some t)
                    | PFloat c \<Rightarrow> Inr (Some \<lparr>shape0 = shape0 v1, vox = (\<lambda>x. c)\<rparr>)
                    | PStr x \<Rightarrow> Inl (TypeError_argument_type ''initial_mask'')) of
                Inl e \<Rightarrow> (tr, Inl e)
              | Inr initial_mask \<Rightarrow>
                (case (case f of
                         PNone \<Rightarrow> Inr None
                       | PStr x \<Rightarrow> Inr (Some x)
                       | _ \<Rightarrow> Inl (TypeError_argument_type ''out_file'')) of
                   Inl e \<Rightarrow> (tr, Inl e)
                 | Inr out_file \<Rightarrow>
                    (let r = calculate_fsc E initial_mask out_file
                               \<lparr>tensor1 = v1, tensor2 = v2, rng = g, trace = tr\<rparr>
                     in (trace (fst r), snd r))))
         | _ \<Rightarrow> (tr, Inl (TypeError_argument_type ''vol''))))"

definition opt_val :: "('a \<Rightarrow> pyval) \<Rightarrow> 'a option \<Rightarrow> pyval" where
  "opt_val f x = (case x of None \<Rightarrow> PNone | Some v \<Rightarrow> f v)"

subsection \<open>The two modes\<close>

text \<open>
  Lines 348-370. \<^verbatim>\<open>(args.corrected / apix) ** -1\<close> divides Python floats. The call passes
  \<^verbatim>\<open>args.corrected\<close> as fourth positional argument and \<^verbatim>\<open>out_file\<close> by keyword.
\<close>

definition main_two ::
  "'g env \<Rightarrow> args \<Rightarrow> image_source list \<Rightarrow> real tensor option \<Rightarrow> real \<Rightarrow> string option \<Rightarrow>
   'g \<Rightarrow> event list \<Rightarrow> event list \<times> (error + outcome)" where
  "main_two E a vols m apix_val plot_file g tr =
     (case (case corrected a of
              None \<Rightarrow> Inr None
            | Some c \<Rightarrow>
               (if 1 \<le> c
                then (if apix_val = 0 then Inl ZeroDivisionError else Inr (Some (1 / (c / apix_val))))
                else Inr (Some c))) of
        Inl e \<Rightarrow> (tr, Inl e)
      | Inr corrected' \<Rightarrow>
        (case call_calculate_fsc E
                [PTensor (images (vols ! 0)), PTensor (images (vols ! 1)),
                 opt_val PTensor m, opt_val PFloat corrected']
                [(''out_file'', opt_val PStr (outtxt a))] g tr of
           (tr1, Inl e) \<Rightarrow> (tr1, Inl e)
         | (tr1, Inr fsc_vals) \<Rightarrow>
            (let thresholds = get_fsc_thresholds fsc_vals apix_val True;
                 tr2 = (if truthy_plot (plot a)
                        then tr1 @ [CreateFscPlot (the plot_file)] else tr1)
             in (tr2, Inr (Curve fsc_vals)))))"

text \<open>Lines 372-397.\<close>

definition main_three ::
  "'g env \<Rightarrow> args \<Rightarrow> image_source list \<Rightarrow> real tensor option \<Rightarrow> real \<Rightarrow> string option \<Rightarrow>
   'g \<Rightarrow> event list \<Rightarrow> event list \<times> (error + outcome)" where
  "main_three E a vols m apix_val plot_file g tr =
     (if corrected a \<noteq> None then (tr, Inl ValueError_corrected_with_three_volumes)
      else
       (let tight = (case m of None \<Rightarrow> DilationParams 6 6 | Some t \<Rightarrow> ExplicitMaskArray t);
            r = calculate_cryosparc_fscs E (images (vols ! 0)) None (25, 15) tight apix_val
                  (outtxt a) plot_file
                  \<lparr>tensor1 = images (vols ! 1), tensor2 = images (vols ! 2), rng = g, trace = tr\<rparr>
        in (trace (fst r), case snd r of Inl e \<Rightarrow> Inl e | Inr t \<Rightarrow> Inr (Table t))))"

text \<open>
  \<^verbatim>\<open>main\<close>, started with the generator state \<open>g\<close>: the trace of collaborator calls it made
  and its outcome.
\<close>

definition main :: "'g env \<Rightarrow> args \<Rightarrow> 'g \<Rightarrow> event list \<times> (error + outcome)" where
  "main E a g =
     (if length (volumes a) \<noteq> 2 \<and> length (volumes a) \<noteq> 3
      then ([], Inl (ValueError_volume_count (length (volumes a))))
      else
       (let vols = map (from_file E) (volumes a);
            m = map_option (parse_mrc E) (mask a);
            tr = map FromFile (volumes a) @ (case mask a of None \<Rightarrow> [] | Some f \<Rightarrow> [ParseMrc f])
        in case resolve_apix (Apix a) vols of
             Inl e \<Rightarrow> (tr, Inl e)
           | Inr apix_val \<Rightarrow>
              (if length (volumes a) = 2
               then main_two E a vols m apix_val (plot_file_of a) g tr
               else main_three E a vols m apix_val (plot_file_of a) g tr)))"

section \<open>Reference notions for the properties\<close>

text \<open>
  The ring of shell \<open>i\<close>: the voxels whose distance \<open>d\<close> from the centre satisfies
  \<open>d < i\<close> and not \<open>d < i - 1\<close>.
\<close>

definition ring_voxels :: "nat \<Rightarrow> nat \<Rightarrow> idx list" where
  "ring_voxels D i =
     np_where D (\<lambda>x. vox (dists_of D) x < real i \<and> \<not> vox (dists_of D) x < real i - 1)"

text \<open>
  The correlation of one shell as the specification words it: the real part of
  \<open>\<langle>v1, v2\<rangle> / sqrt (\<langle>v1, v1\<rangle> * \<langle>v2, v2\<rangle>)\<close>, with the real square root of the
  product of the two powers, and NaN on a shell without power.
\<close>

definition spec_shell_value :: "complex list \<Rightarrow> complex list \<Rightarrow> pyfloat" where
  "spec_shell_value v1 v2 =
     (let pw = Re (np_vdot v1 v1) * Re (np_vdot v2 v2)
      in if pw = 0 then NaN else Fin (Re (np_vdot v1 v2 / complex_of_real (sqrt pw))))"

text \<open>The value the loop of \<^verbatim>\<open>calculate_fsc\<close> computes for shell \<open>i\<close>.\<close>

definition ring_corr :: "real tensor \<Rightarrow> complex tensor \<Rightarrow> complex tensor \<Rightarrow> nat \<Rightarrow> nat \<Rightarrow> pyfloat" where
  "ring_corr dists vol1 vol2 D i =
     (let shell = np_where D (\<lambda>x. vox dists x < real i \<and> \<not> vox dists x < real i - 1)
      in shell_corr (map (vox vol1) shell) (map (vox vol2) shell))"

text \<open>The squared distance from the centre, an integer.\<close>

definition sqdist :: "nat \<Rightarrow> idx \<Rightarrow> int" where
  "sqdist D = (\<lambda>(a, b, c).
     (- int D div 2 + int c)\<^sup>2 + (- int D div 2 + int b)\<^sup>2 + (- int D div 2 + int a)\<^sup>2)"

text \<open>
  The threshold as the specification words it: the maximal pixel resolution among the
  entries with pixel resolution above 0 (the DC entry excluded) whose correlation is at
  least the cutoff, undefined when there is no such entry.
\<close>

definition spec_threshold :: "frame \<Rightarrow> real \<Rightarrow> real option" where
  "spec_threshold fsc_vals cutoff =
     (let non_dc = filter (\<lambda>r. 0 < fst r \<and> pf_ge (snd r) cutoff) fsc_vals
      in if non_dc = [] then None else Some (Max (set (map fst non_dc))))"

text \<open>
  Step 5 of the corrector as the specification words it: the clipped rescaling of the
  input value by the null correlation, 0 when the null correlation is 1, and the input
  value when it is NaN.
\<close>

definition corrected_value :: "pyfloat \<Rightarrow> pyfloat \<Rightarrow> pyfloat" where
  "corrected_value fsc_raw p_random =
     (case p_random of
        NaN \<Rightarrow> fsc_raw
      | Fin p \<Rightarrow> if p = 1 then Fin 0 else np_clip (null_rescale fsc_raw p) 0 1)"

text \<open>
  The shell index \<^verbatim>\<open>phase_D\<close> of a call of \<^verbatim>\<open>correct_fsc\<close>, the two transforms as
  \<open>randomize_phases\<close> leaves them, and the value the loop computes on them for shell
  \<open>i\<close>.
\<close>

definition phase_index :: "'g env \<Rightarrow> real \<Rightarrow> real tensor option \<Rightarrow> 'g heap \<Rightarrow> int" where
  "phase_index E randomization_threshold initial_mask h0 =
     py_int (randomization_threshold *
             real (shape0 (fftn_center E (tensor1 (apply_mask initial_mask h0)))))"

definition loop_volumes ::
  "'g env \<Rightarrow> real \<Rightarrow> real tensor option \<Rightarrow> 'g heap \<Rightarrow> complex tensor \<times> complex tensor" where
  "loop_volumes E randomization_threshold initial_mask h0 =
     (let h = apply_mask initial_mask h0; D = shape0 (tensor1 h)
      in fst (randomize_phases E D (dists_of D)
                (phase_index E randomization_threshold initial_mask h0)
                (fftn_center E (tensor1 h)) (fftn_center E (tensor2 h)) (rng h)))"

definition p_loop :: "'g env \<Rightarrow> real \<Rightarrow> real tensor option \<Rightarrow> 'g heap \<Rightarrow> nat \<Rightarrow> pyfloat" where
  "p_loop E randomization_threshold initial_mask h0 i =
     (let D = shape0 (tensor1 h0); vs = loop_volumes E randomization_threshold initial_mask h0
      in spec_shell_value (map (vox (fst vs)) (ring_voxels D i)) (map (vox (snd vs)) (ring_voxels D i)))"

text \<open>
  The collaborator calls that compute: every call but the loading of a volume file or of
  the mask file.
\<close>

definition is_computation :: "event \<Rightarrow> bool" where
  "is_computation ev = (case ev of FromFile f \<Rightarrow> False | ParseMrc f \<Rightarrow> False | _ \<Rightarrow> True)"

text \<open>
  The curve of two real-space volumes to which nothing more is applied: the transform,
  then the correlation of every shell.
\<close>

definition curve_of :: "'g env \<Rightarrow> real tensor \<Rightarrow> real tensor \<Rightarrow> frame" where
  "curve_of E v1 v2 =
     (let D = shape0 v1
      in zip (pixres_axis D)
           (Fin 1 # map (ring_corr (dists_of D) (fftn_center E v1) (fftn_center E v2) D)
                      [1..<D div 2]))"

text \<open>A volume after \<^verbatim>\<open>vol *= mask\<close> for an optional mask.\<close>

definition scaled :: "real tensor \<Rightarrow> real tensor option \<Rightarrow> real tensor" where
  "scaled v m = (case m of None \<Rightarrow> v | Some t \<Rightarrow> imul v t)"

text \<open>
  The curves of a list of labelled masks when every call works on the volumes the
  previous calls have left.
\<close>

fun mask_curves ::
  "'g env \<Rightarrow> (string \<times> real tensor option) list \<Rightarrow> real tensor \<Rightarrow> real tensor \<Rightarrow>
   (string \<times> frame) list" where
  "mask_curves E [] v1 v2 = []"
| "mask_curves E (lm # rest) v1 v2 =
     (fst lm, curve_of E (scaled v1 (snd lm)) (scaled v2 (snd lm)))
       # mask_curves E rest (scaled v1 (snd lm)) (scaled v2 (snd lm))"

text \<open>The three masks of a run of the orchestrator, and the heap it hands to the corrector.\<close>

definition sphere_array :: "'g env \<Rightarrow> real tensor \<Rightarrow> real tensor option \<Rightarrow> real tensor" where
  "sphere_array E full_vol sphere_mask =
     (case sphere_mask of None \<Rightarrow> spherical_window_mask E (shape0 full_vol) | Some m \<Rightarrow> m)"

definition loose_array :: "'g env \<Rightarrow> real tensor \<Rightarrow> int \<times> int \<Rightarrow> real \<Rightarrow> real tensor" where
  "loose_array E full_vol loose_mask Apix_val =
     cosine_dilation_mask E full_vol (fst loose_mask) (snd loose_mask) Apix_val"

definition tight_array :: "'g env \<Rightarrow> real tensor \<Rightarrow> tight_mask_arg \<Rightarrow> real \<Rightarrow> real tensor" where
  "tight_array E full_vol tight_mask Apix_val =
     (case tight_mask of
        DilationParams dilation edge_dist \<Rightarrow> cosine_dilation_mask E full_vol dilation edge_dist Apix_val
      | ExplicitMaskArray m \<Rightarrow> m
      | OtherType \<Rightarrow> full_vol)"

definition heap_after_curves ::
  "'g env \<Rightarrow> real tensor \<Rightarrow> real tensor option \<Rightarrow> int \<times> int \<Rightarrow> tight_mask_arg \<Rightarrow> real \<Rightarrow>
   'g heap \<Rightarrow> 'g heap" where
  "heap_after_curves E full_vol sphere_mask loose_mask tight_mask Apix_val h0 =
     (case build_masks E full_vol sphere_mask loose_mask tight_mask Apix_val h0 of
        (h, Inl e) \<Rightarrow> h
      | (h, Inr masks) \<Rightarrow> fst (fsc_for_masks E masks h))"

text \<open>The position of the first occurrence of an entry in a list.\<close>

definition index_in :: "'a list \<Rightarrow> 'a \<Rightarrow> nat" where
  "index_in xs x = length (takeWhile (\<lambda>y. y \<noteq> x) xs)"

text \<open>
  A volume whose values inside a region are permuted: the \<open>k\<close>-th voxel of the region
  gets the value the volume had at the voxel number \<open>perm ! k\<close> of the region, and every
  voxel outside the region keeps its value.
\<close>

definition permuted_region :: "idx list \<Rightarrow> nat list \<Rightarrow> 'a tensor \<Rightarrow> 'a tensor" where
  "permuted_region region perm vol =
     vol\<lparr>vox := (\<lambda>x. if x \<in> set region
                       then vox vol (region ! (perm ! index_in region x))
                       else vox vol x)\<rparr>"

text \<open>The high-frequency region: the voxels at distance above \<^verbatim>\<open>phase_D\<close>, in row-major order.\<close>

definition phase_region :: "nat \<Rightarrow> int \<Rightarrow> idx list" where
  "phase_region D phase_D =
     filter (\<lambda>x. real_of_int phase_D < vox (dists_of D) x) (all_idx D)"

text \<open>
  The null correlation of shell \<open>i\<close> for a call of \<^verbatim>\<open>correct_fsc\<close>, spelled out: both
  volumes are masked and transformed; inside the region of distance above \<^verbatim>\<open>phase_D\<close>
  the first transform is permuted by the generator's first shuffle of \<open>0, \<dots>, n - 1\<close> and
  the second by its shuffle of that shuffled list; the correlation is taken over the
  ring of shell \<open>i\<close>.
\<close>

definition p_random :: "'g env \<Rightarrow> real \<Rightarrow> real tensor option \<Rightarrow> 'g heap \<Rightarrow> nat \<Rightarrow> pyfloat" where
  "p_random E randomization_threshold initial_mask h0 i =
     (let D = shape0 (tensor1 h0);
          vol1 = fftn_center E (scaled (tensor1 h0) initial_mask);
          vol2 = fftn_center E (scaled (tensor2 h0) initial_mask);
          phase_D = py_int (randomization_threshold * real (shape0 vol1));
          region = phase_region D phase_D;
          first_shuffle = shuffle E (rng h0) [0..<length region];
          second_shuffle = shuffle E (snd first_shuffle) (fst first_shuffle);
          r1 = permuted_region region (fst first_shuffle) vol1;
          r2 = permuted_region region (fst second_shuffle) vol2
      in spec_shell_value (map (vox r1) (ring_voxels D i)) (map (vox r2) (ring_voxels D i)))"

text \<open>What is assumed of the generator: a shuffle returns the entries it was given.\<close>

definition shuffle_permutes :: "'g env \<Rightarrow> bool" where
  "shuffle_permutes E =
     (\<forall>g xs. length (fst (shuffle E g xs)) = length xs \<and> set (fst (shuffle E g xs)) = set xs)"

section \<open>Concrete instances\<close>

text \<open>
  Collaborators and inputs on which the properties are instantiated. The transform embeds
  every entry into the complex numbers and the generator reverses the list: they stand
  for the external Fourier transform and random generator, about which the properties
  assume nothing. The volumes have side 4.
\<close>

definition embed_center :: "real tensor \<Rightarrow> complex tensor" where
  "embed_center t = \<lparr>shape0 = shape0 t, vox = (\<lambda>x. complex_of_real (vox t x))\<rparr>"

definition env0 :: "unit env" where
  "env0 = \<lparr>fftn_center = embed_center, shuffle = (\<lambda>g xs. (rev xs, g)),
     spherical_window_mask = (\<lambda>D. \<lparr>shape0 = D, vox = (\<lambda>x. 1)\<rparr>),
     cosine_dilation_mask = (\<lambda>v d e a. \<lparr>shape0 = shape0 v, vox = (\<lambda>x. 1)\<rparr>),
     from_file = (\<lambda>f. \<lparr>apix = None, images = \<lparr>shape0 = 4, vox = (\<lambda>x. 1)\<rparr>\<rparr>),
     parse_mrc = (\<lambda>f. \<lparr>shape0 = 4, vox = (\<lambda>x. 1)\<rparr>)\<rparr>"

definition heap4 :: "unit heap" where
  "heap4 = \<lparr>tensor1 = \<lparr>shape0 = 4, vox = (\<lambda>x. 1)\<rparr>,
            tensor2 = \<lparr>shape0 = 4, vox = (\<lambda>x. - 2)\<rparr>, rng = (), trace = []\<rparr>"

text \<open>A curve for volumes of side 4.\<close>

definition curve4 :: frame where
  "curve4 = [(0, Fin 1), (1 / 4, Fin (1 / 2))]"

text \<open>Command lines, and a loader whose third volume has another pixel size.\<close>

definition args_two :: args where
  "args_two = \<lparr>volumes = [''vol1.mrc'', ''vol2.mrc''], mask = None, corrected = None,
     plot = None, Apix = None, outtxt = None\<rparr>"

definition args_three_corrected :: args where
  "args_three_corrected = \<lparr>volumes = [''full.mrc'', ''half1.mrc'', ''half2.mrc''], mask = None,
     corrected = Some 10, plot = None, Apix = None, outtxt = None\<rparr>"

definition args_apix_zero :: args where
  "args_apix_zero = \<lparr>volumes = [''full.mrc'', ''half1.mrc'', ''half2.mrc''], mask = None,
     corrected = None, plot = None, Apix = Some 0, outtxt = None\<rparr>"

definition env_apix :: "unit env" where
  "env_apix = env0\<lparr>from_file := (\<lambda>f. \<lparr>apix = (if f = ''half2.mrc'' then Some (3 / 2) else Some 1),
                                       images = \<lparr>shape0 = 4, vox = (\<lambda>x. 1)\<rparr>\<rparr>)\<rparr>"

text \<open>Half-maps of side 4 that correlate positively.\<close>

definition heap4_pos :: "unit heap" where
  "heap4_pos = \<lparr>tensor1 = \<lparr>shape0 = 4, vox = (\<lambda>x. 1)\<rparr>,
                tensor2 = \<lparr>shape0 = 4, vox = (\<lambda>x. 2)\<rparr>, rng = (), trace = []\<rparr>"

text \<open>
  A full volume of side 4, and collaborators whose loose mask (dilation 25) vanishes at
  the voxel \<open>(2, 2, 2)\<close> while every other mask is 1 everywhere.
\<close>

definition full4 :: "real tensor" where
  "full4 = \<lparr>shape0 = 4, vox = (\<lambda>x. 1)\<rparr>"

definition env_loose :: "unit env" where
  "env_loose = env0\<lparr>cosine_dilation_mask :=
     (\<lambda>v dilation edge_dist a.
        \<lparr>shape0 = shape0 v, vox = (\<lambda>x. if dilation = 25 \<and> x = (2, 2, 2) then 0 else 1)\<rparr>)\<rparr>"

text \<open>
  Side 6: the voxels off the centre and the ring of shell 2 in row-major order, a
  generator that rotates the list by one place, two volumes that are not constant, and
  a curve.
\<close>

definition region6 :: "idx list" where
  "region6 = filter (\<lambda>x. 0 < sqdist 6 x) (all_idx 6)"

definition ring6 :: "idx list" where
  "ring6 = [(2, 2, 2), (2, 2, 3), (2, 2, 4), (2, 3, 2), (2, 3, 3), (2, 3, 4), (2, 4, 2), (2, 4, 3), (2, 4, 4), (3, 2, 2), (3, 2, 3), (3, 2, 4), (3, 3, 2), (3, 3, 4), (3, 4, 2), (3, 4, 3), (3, 4, 4), (4, 2, 2), (4, 2, 3), (4, 2, 4), (4, 3, 2), (4, 3, 3), (4, 3, 4), (4, 4, 2), (4, 4, 3), (4, 4, 4)]"

definition env_rot :: "unit env" where
  "env_rot = env0\<lparr>shuffle := (\<lambda>g xs. (rotate1 xs, g))\<rparr>"

definition heap6 :: "unit heap" where
  "heap6 = \<lparr>tensor1 = \<lparr>shape0 = 6,
                vox = (\<lambda>x. if x = (3, 3, 3) then 2 else if x = (3, 3, 5) then 1 else 0)\<rparr>,
            tensor2 = \<lparr>shape0 = 6,
                vox = (\<lambda>x. if x = (3, 3, 3) then - 1 else if x = (3, 3, 5) then 4
                           else if x = (3, 4, 0) then 3 else 0)\<rparr>,
            rng = (), trace = []\<rparr>"

definition curve6 :: frame where
  "curve6 = [(0, Fin 1), (1 / 6, Fin (9 / 10)), (1 / 3, Fin (4 / 5))]"

section \<open>Properties of \<^verbatim>\<open>get_fftn_dists\<close> and \<^verbatim>\<open>calculate_fsc\<close>\<close>

lemma length_coord_axis: "length (coord_axis D) = D"
  unfolding coord_axis_def by (simp add: ) linarith?

lemma nth_coord_axis: "k < D \<Longrightarrow> coord_axis D ! k = (- int D) div 2 + int k"
  unfolding coord_axis_def by (subst nth_upto) (auto, linarith?)

lemma vox_dists_nonneg: "0 \<le> vox (dists_of D) x"
  unfolding dists_of_def by (cases x) (simp add: Let_def)

lemma shape0_dists_of: "shape0 (dists_of D) = D"
  unfolding dists_of_def by (simp add: Let_def length_coord_axis)

lemma center_dist:
  assumes "0 < D"
  shows "vox (dists_of D) (D div 2, D div 2, D div 2) = 0 \<longleftrightarrow> even D"
proof -
  have "(real_of_int (- int D div 2) + real (D div 2) = 0) = (- int D div 2 + int (D div 2) = 0)"
    by (metis of_int_add of_int_eq_0_iff of_int_of_nat_eq)
  also have "\<dots> = even D" by presburger
  finally have e: "(real_of_int (- int D div 2) + real (D div 2) = 0) = even D" .
  show ?thesis
    using assms unfolding dists_of_def by (simp add: Let_def nth_coord_axis e)
qed

lemma get_fftn_dists_ok: "even D \<Longrightarrow> 0 < D \<Longrightarrow> get_fftn_dists D = Inr (dists_of D)"
  unfolding get_fftn_dists_def using center_dist[of D] by (simp add: Let_def shape0_dists_of)

lemma get_fftn_dists_odd: "odd D \<Longrightarrow> get_fftn_dists D = Inl AssertionError"
  unfolding get_fftn_dists_def using center_dist[of D] by (auto simp add: Let_def shape0_dists_of elim: oddE)

lemma get_fftn_dists_zero: "get_fftn_dists 0 = Inl IndexError"
  unfolding get_fftn_dists_def by (simp add: Let_def shape0_dists_of)

lemma fsc_loop_upt:
  "snd (fsc_loop dists vol1 vol2 D [a..<n] (\<lambda>x. vox dists x < real a - 1, acc)) =
     acc @ map (ring_corr dists vol1 vol2 D) [a..<n]"
proof (induction "n - a" arbitrary: a acc)
  case 0
  then show ?case by simp
next
  case (Suc k)
  then have lt: "a < n" and k: "k = n - Suc a" by simp_all
  have "snd (fsc_loop dists vol1 vol2 D [a..<n] (\<lambda>x. vox dists x < real a - 1, acc)) =
        snd (fsc_loop dists vol1 vol2 D [Suc a..<n]
               (\<lambda>x. vox dists x < real (Suc a) - 1, acc @ [ring_corr dists vol1 vol2 D a]))"
    using lt by (simp add: upt_conv_Cons Let_def ring_corr_def)
  also have "\<dots> = (acc @ [ring_corr dists vol1 vol2 D a]) @ map (ring_corr dists vol1 vol2 D) [Suc a..<n]"
    using Suc.hyps(1)[OF k] .
  finally show ?case using lt by (simp add: upt_conv_Cons)
qed

lemma np_vdot_self: "np_vdot v v = complex_of_real (sum_list (map (\<lambda>x. (cmod x)\<^sup>2) v))"
proof (induction v)
  case Nil
  then show ?case by (simp add: np_vdot_def)
next
  case (Cons x v)
  have "cnj x * x = complex_of_real ((cmod x)\<^sup>2)"
    using complex_norm_square[of x] by (simp add: mult.commute)
  with Cons show ?case by (simp add: np_vdot_def)
qed

lemma shell_corr_spec: "shell_corr v1 v2 = spec_shell_value v1 v2"
proof -
  define a where "a = sum_list (map (\<lambda>x. (cmod x)\<^sup>2) v1)"
  define b where "b = sum_list (map (\<lambda>x. (cmod x)\<^sup>2) v2)"
  have a: "0 \<le> a" unfolding a_def by (rule sum_list_nonneg) auto
  have b: "0 \<le> b" unfolding b_def by (rule sum_list_nonneg) auto
  have ab: "0 \<le> a * b" using a b by simp
  have "csqrt (np_vdot v1 v1 * np_vdot v2 v2) = complex_of_real (sqrt (a * b))"
    unfolding np_vdot_self a_def[symmetric] b_def[symmetric]
    using ab by (metis of_real_mult of_real_sqrt)
  moreover have "Re (np_vdot v1 v1) = a" "Re (np_vdot v2 v2) = b"
    unfolding np_vdot_self a_def b_def by simp_all
  ultimately show ?thesis
    unfolding shell_corr_def spec_shell_value_def using ab by (simp add: Let_def)
qed

lemma shape0_apply_mask: "shape0 (tensor1 (apply_mask m h)) = shape0 (tensor1 h)"
  unfolding apply_mask_def imul_def by (simp split: option.splits)

lemma tensors_apply_mask:
  "tensor1 (apply_mask m h) = scaled (tensor1 h) m"
  "tensor2 (apply_mask m h) = scaled (tensor2 h) m"
  "rng (apply_mask m h) = rng h"
  by (simp_all add: apply_mask_def scaled_def split: option.splits)

lemma shape0_scaled: "shape0 (scaled v m) = shape0 v"
  by (simp add: scaled_def imul_def split: option.splits)

lemma length_pixres_axis: "length (pixres_axis D) = D div 2"
  unfolding pixres_axis_def by simp

lemma fsc_loop_init:
  "snd (fsc_loop (dists_of D) vol1 vol2 D [Suc 0..<n] (\<lambda>x. False, [Fin 1])) =
     Fin 1 # map (ring_corr (dists_of D) vol1 vol2 D) [Suc 0..<n]"
proof -
  have z: "(\<lambda>x. False) = (\<lambda>x. vox (dists_of D) x < real 1 - 1)"
  proof
    fix x show "False = (vox (dists_of D) x < real 1 - 1)"
      using vox_dists_nonneg[of D x] by simp
  qed
  show ?thesis
    unfolding z using fsc_loop_upt[of "dists_of D" vol1 vol2 D 1 n "[Fin 1]"] by simp
qed

lemma calculate_fsc_value:
  assumes "even (shape0 (tensor1 h0))" "0 < shape0 (tensor1 h0)"
  shows "snd (calculate_fsc E initial_mask out_file h0) =
     Inr (zip (pixres_axis (shape0 (tensor1 h0)))
            (Fin 1 # map (ring_corr (dists_of (shape0 (tensor1 h0)))
                           (fftn_center E (tensor1 (apply_mask initial_mask h0)))
                           (fftn_center E (tensor2 (apply_mask initial_mask h0)))
                           (shape0 (tensor1 h0)))
                       [1..<shape0 (tensor1 h0) div 2]))"
proof -
  define D where "D = shape0 (tensor1 h0)"
  have D2: "1 \<le> D div 2" using assms unfolding D_def by (auto elim: evenE)
  have len: "length (pixres_axis D) = length (Fin 1 # map (ring_corr (dists_of D)
                           (fftn_center E (tensor1 (apply_mask initial_mask h0)))
                           (fftn_center E (tensor2 (apply_mask initial_mask h0))) D) [1..<D div 2])"
    using D2 by (simp add: length_pixres_axis)
  have g: "get_fftn_dists D = Inr (dists_of D)"
    using assms unfolding D_def by (rule get_fftn_dists_ok)
  show ?thesis
    unfolding calculate_fsc_def Let_def shape0_apply_mask D_def[symmetric] g
    using len by (simp add: fsc_loop_init DataFrame_def split: option.splits)
qed

lemma dist_less_iff:
  assumes "a < D" "b < D" "c < D"
  shows "vox (dists_of D) (a, b, c) < real i \<longleftrightarrow>
     (- int D div 2 + int c)\<^sup>2 + (- int D div 2 + int b)\<^sup>2 + (- int D div 2 + int a)\<^sup>2 < (int i)\<^sup>2"
proof -
  let ?n = "(- int D div 2 + int c)\<^sup>2 + (- int D div 2 + int b)\<^sup>2 + (- int D div 2 + int a)\<^sup>2"
  have v: "vox (dists_of D) (a, b, c) = sqrt (real_of_int ?n)"
    using assms unfolding dists_of_def by (simp add: Let_def nth_coord_axis)
  have "sqrt (real_of_int ?n) < real i \<longleftrightarrow> sqrt (real_of_int ?n) < sqrt ((real i)\<^sup>2)"
    by simp
  also have "\<dots> \<longleftrightarrow> real_of_int ?n < (real i)\<^sup>2"
    by (rule real_sqrt_less_iff)
  also have "\<dots> \<longleftrightarrow> real_of_int ?n < real_of_int ((int i)\<^sup>2)" by simp
  also have "\<dots> \<longleftrightarrow> ?n < (int i)\<^sup>2" by (rule of_int_less_iff)
  finally show ?thesis unfolding v .
qed

lemma upt4: "[0..<4] = [0, 1, 2, 3::nat]"
  by (simp add: upt_rec)

lemma in_ring_iff:
  assumes "a < D" "b < D" "c < D" "1 \<le> i"
  shows "(vox (dists_of D) (a, b, c) < real i \<and> \<not> vox (dists_of D) (a, b, c) < real i - 1) \<longleftrightarrow>
     (sqdist D (a, b, c) < (int i)\<^sup>2 \<and> \<not> sqdist D (a, b, c) < (int (i - 1))\<^sup>2)"
proof -
  have r: "real i - 1 = real (i - 1)" using assms(4) by simp
  show ?thesis
    unfolding r sqdist_def prod.case
    using dist_less_iff[OF assms(1-3), of i] dist_less_iff[OF assms(1-3), of "i - 1"]
    by blast
qed

lemma set_all_idx: "set (all_idx D) = {(a, b, c). a < D \<and> b < D \<and> c < D}"
  unfolding all_idx_def by auto

lemma ring_voxels_int:
  assumes "1 \<le> i"
  shows "ring_voxels D i =
     filter (\<lambda>x. sqdist D x < (int i)\<^sup>2 \<and> \<not> sqdist D x < (int (i - 1))\<^sup>2) (all_idx D)"
  unfolding ring_voxels_def np_where_def
proof (rule filter_cong[OF refl])
  fix x assume "x \<in> set (all_idx D)"
  then obtain a b c where x: "x = (a, b, c)" and "a < D" "b < D" "c < D"
    by (auto simp: set_all_idx)
  then show "(vox (dists_of D) x < real i \<and> \<not> vox (dists_of D) x < real i - 1) =
     (sqdist D x < (int i)\<^sup>2 \<and> \<not> sqdist D x < (int (i - 1))\<^sup>2)"
    unfolding x using in_ring_iff[OF _ _ _ assms] by blast
qed

lemma ring_4_1: "ring_voxels 4 1 = [(2,2,2)]"
proof -
  have "ring_voxels 4 1 =
     filter (\<lambda>x. sqdist 4 x < (int 1)\<^sup>2 \<and> \<not> sqdist 4 x < (int (1 - 1))\<^sup>2) (all_idx 4)"
    by (rule ring_voxels_int) simp
  also have "\<dots> = [(2,2,2)]"
    unfolding all_idx_def upt4 by (simp add: sqdist_def)
  finally show ?thesis .
qed

lemma upt2: "[0..<2] = [0, 1::nat]"
  by (simp add: upt_rec)

text \<open>
  Claim C4. For two volumes of even side \<open>D\<close> (a volume has at least one voxel, so
  \<open>0 < D\<close>), \<^verbatim>\<open>calculate_fsc\<close> returns a curve with exactly \<open>D div 2\<close> entries, whose
  pixel-resolution axis is \<open>i / D\<close> for \<open>i = 0, \<dots>, D div 2 - 1\<close> and hence strictly
  increasing, and whose entry 0 is the constant 1, whatever the volumes, the mask and
  the transform are.
\<close>

theorem calculate_fsc_curve_shape:
  assumes "even (shape0 (tensor1 h0))" and "0 < shape0 (tensor1 h0)"
  shows "\<exists>fsc_vals. snd (calculate_fsc E initial_mask out_file h0) = Inr fsc_vals
     \<and> length fsc_vals = shape0 (tensor1 h0) div 2
     \<and> map fst fsc_vals = map (\<lambda>i. real i / real (shape0 (tensor1 h0))) [0..<shape0 (tensor1 h0) div 2]
     \<and> sorted_wrt (<) (map fst fsc_vals)
     \<and> snd (fsc_vals ! 0) = Fin 1"
proof -
  define D where "D = shape0 (tensor1 h0)"
  define fsc where "fsc = Fin 1 # map (ring_corr (dists_of D)
        (fftn_center E (tensor1 (apply_mask initial_mask h0)))
        (fftn_center E (tensor2 (apply_mask initial_mask h0))) D) [1..<D div 2]"
  have D: "even D" "0 < D" using assms by (simp_all add: D_def)
  then have D2: "1 \<le> D div 2" by (auto elim: evenE)
  have len: "length fsc = length (pixres_axis D)"
    using D2 by (simp add: fsc_def length_pixres_axis)
  have val: "snd (calculate_fsc E initial_mask out_file h0) = Inr (zip (pixres_axis D) fsc)"
    unfolding D_def fsc_def by (rule calculate_fsc_value[OF assms])
  have fst: "map fst (zip (pixres_axis D) fsc) = pixres_axis D"
    using len by simp
  have inc: "sorted_wrt (<) (pixres_axis D)"
    unfolding pixres_axis_def sorted_wrt_map
    by (rule sorted_wrt_mono_rel[OF _ sorted_wrt_upt]) (use D in \<open>simp add: divide_strict_right_mono\<close>)
  have zero: "snd (zip (pixres_axis D) fsc ! 0) = Fin 1"
    using len D2 by (simp add: fsc_def length_pixres_axis)
  show ?thesis
    unfolding D_def[symmetric] val
    using len fst inc zero by (simp add: length_pixres_axis pixres_axis_def)
qed

theorem calculate_fsc_curve_shape_witness:
  "\<exists>fsc_vals. snd (calculate_fsc env0 None None heap4) = Inr fsc_vals
     \<and> length fsc_vals = 2 \<and> map fst fsc_vals = [0, 1 / 4] \<and> snd (fsc_vals ! 0) = Fin 1"
proof -
  have D: "shape0 (tensor1 heap4) = 4" by (simp add: heap4_def)
  have "even (shape0 (tensor1 heap4))" and "0 < shape0 (tensor1 heap4)"
    unfolding D by simp_all
  from calculate_fsc_curve_shape[OF this, of env0 None None]
  obtain fsc_vals where "snd (calculate_fsc env0 None None heap4) = Inr fsc_vals"
    and "length fsc_vals = 2" and "map fst fsc_vals = [0, 1 / 4]"
    and "snd (fsc_vals ! 0) = Fin 1"
    unfolding D by (auto simp: upt2)
  then show ?thesis by simp
qed

text \<open>
  Claim C3. For two volumes of even side \<open>D\<close> and every shell index \<open>i\<close> with
  \<open>1 \<le> i < D div 2\<close>, the value of the curve at index \<open>i\<close> is the real part of
  \<open>\<langle>v1, v2\<rangle> / sqrt (\<langle>v1, v1\<rangle> * \<langle>v2, v2\<rangle>)\<close>, where \<open>v1\<close> and \<open>v2\<close> are the
  coefficients of the centred transforms of the two (optionally masked) volumes on the
  ring of voxels with \<open>d < i\<close> and not \<open>d < i - 1\<close>.
\<close>

theorem calculate_fsc_shell_value:
  assumes "even (shape0 (tensor1 h0))" and "1 \<le> i" and "i < shape0 (tensor1 h0) div 2"
  shows "\<exists>fsc_vals. snd (calculate_fsc E initial_mask out_file h0) = Inr fsc_vals
     \<and> snd (fsc_vals ! i) =
         spec_shell_value
           (map (vox (fftn_center E (tensor1 (apply_mask initial_mask h0))))
              (ring_voxels (shape0 (tensor1 h0)) i))
           (map (vox (fftn_center E (tensor2 (apply_mask initial_mask h0))))
              (ring_voxels (shape0 (tensor1 h0)) i))"
proof -
  define D where "D = shape0 (tensor1 h0)"
  define V1 where "V1 = fftn_center E (tensor1 (apply_mask initial_mask h0))"
  define V2 where "V2 = fftn_center E (tensor2 (apply_mask initial_mask h0))"
  define fsc where "fsc = Fin 1 # map (ring_corr (dists_of D) V1 V2 D) [1..<D div 2]"
  have pos: "0 < shape0 (tensor1 h0)" using assms(3) by simp
  have len: "length fsc = length (pixres_axis D)"
    using assms(3) by (simp add: fsc_def length_pixres_axis D_def)
  have val: "snd (calculate_fsc E initial_mask out_file h0) = Inr (zip (pixres_axis D) fsc)"
    unfolding D_def fsc_def V1_def V2_def by (rule calculate_fsc_value[OF assms(1) pos])
  obtain k where k: "i = Suc k" using assms(2) by (cases i) simp_all
  have "snd (zip (pixres_axis D) fsc ! i) = fsc ! i"
    using len assms(3) by (simp add: length_pixres_axis D_def)
  also have "\<dots> = ring_corr (dists_of D) V1 V2 D i"
    using assms(3) unfolding fsc_def k D_def by simp
  also have "\<dots> = spec_shell_value (map (vox V1) (ring_voxels D i)) (map (vox V2) (ring_voxels D i))"
    unfolding ring_corr_def ring_voxels_def Let_def by (rule shell_corr_spec)
  finally show ?thesis
    unfolding val D_def[symmetric] V1_def[symmetric] V2_def[symmetric] by simp
qed

theorem calculate_fsc_shell_value_witness:
  "\<exists>fsc_vals. snd (calculate_fsc env0 None None heap4) = Inr fsc_vals
     \<and> snd (fsc_vals ! 1) = Fin (- 1)"
proof -
  have D: "shape0 (tensor1 heap4) = 4" by (simp add: heap4_def)
  have "even (shape0 (tensor1 heap4))" and "(1::nat) \<le> 1" and "1 < shape0 (tensor1 heap4) div 2"
    unfolding D by simp_all
  from calculate_fsc_shell_value[OF this, of env0 None None]
  obtain fsc_vals where r: "snd (calculate_fsc env0 None None heap4) = Inr fsc_vals"
    and v: "snd (fsc_vals ! 1) =
         spec_shell_value
           (map (vox (fftn_center env0 (tensor1 (apply_mask None heap4)))) (ring_voxels 4 1))
           (map (vox (fftn_center env0 (tensor2 (apply_mask None heap4)))) (ring_voxels 4 1))"
    unfolding D by blast
  have "snd (fsc_vals ! 1) = Fin (- 1)"
    unfolding v ring_4_1
    by (simp add: heap4_def env0_def embed_center_def apply_mask_def spec_shell_value_def np_vdot_def)
  with r show ?thesis by simp
qed

section \<open>Properties of \<^verbatim>\<open>get_fsc_thresholds\<close>\<close>

lemma threshold_at_spec: "threshold_at fv c = spec_threshold fv c"
proof (cases "list_ex (\<lambda>r. 0 < fst r \<and> pf_ge (snd r) c) fv")
  case False
  then have "filter (\<lambda>r. 0 < fst r \<and> pf_ge (snd r) c) fv = []"
    by (auto simp: list_ex_iff filter_empty_conv)
  with False show ?thesis by (simp add: threshold_at_def spec_threshold_def)
next
  case True
  let ?A = "set (map fst (filter (\<lambda>r. pf_ge (snd r) c) fv))"
  let ?B = "set (map fst (filter (\<lambda>r. 0 < fst r \<and> pf_ge (snd r) c) fv))"
  from True obtain r where r: "r \<in> set fv" "0 < fst r" "pf_ge (snd r) c"
    by (auto simp: list_ex_iff)
  then have ne: "filter (\<lambda>r. 0 < fst r \<and> pf_ge (snd r) c) fv \<noteq> []"
    by (auto simp: filter_empty_conv)
  have B: "fst r \<in> ?B" using r by auto
  have sub: "?B \<subseteq> ?A" by auto
  have fin: "finite ?A" "finite ?B" by simp_all
  have "Max ?A = Max ?B"
  proof (rule antisym)
    have A: "fst r \<in> ?A" using sub B by (rule subsetD)
    then have neA: "?A \<noteq> {}" by (metis empty_iff)
    have "Max ?A \<in> ?A" using fin(1) neA by (rule Max_in)
    moreover have "fst r \<le> Max ?A" using fin(1) A by (rule Max_ge)
    ultimately have "Max ?A \<in> ?B" using r(2) by auto
    then show "Max ?A \<le> Max ?B" using fin(2) by (intro Max_ge)
    have neB: "?B \<noteq> {}" using B by (metis empty_iff)
    show "Max ?B \<le> Max ?A" using sub neB fin(1) by (rule Max_mono)
  qed
  with True ne show ?thesis by (simp add: threshold_at_def spec_threshold_def Let_def)
qed

text \<open>
  Claim C7. For every curve and each of the cutoffs 0.5 and 0.143, \<^verbatim>\<open>get_fsc_thresholds\<close>
  returns the maximal pixel resolution among the entries with pixel resolution above 0
  whose correlation is at least the cutoff, and None exactly when no such entry exists;
  the DC entry alone never gives a threshold.
\<close>

theorem get_fsc_thresholds_maximal:
  "get_fsc_thresholds fsc_vals apix_val verbose =
     (spec_threshold fsc_vals (1 / 2), spec_threshold fsc_vals (143 / 1000))"
  by (simp add: get_fsc_thresholds_def threshold_at_spec)

lemma get_fsc_thresholds_example: "get_fsc_thresholds [(0, Fin 1), (1/4, Fin (3/5)), (1/2, Fin (1/5))] 1 True = (Some (1/4), Some (1/2))"
  by (simp add: get_fsc_thresholds_def threshold_at_def pf_ge_def)

lemma get_fsc_thresholds_dc_only: "get_fsc_thresholds [(0, Fin 1), (1/4, Fin (1/10)), (1/2, NaN)] 1 True = (None, None)"
  by (simp add: get_fsc_thresholds_def threshold_at_def pf_ge_def)

section \<open>Properties of \<^verbatim>\<open>correct_fsc\<close>\<close>

lemma length_null_correct: "length (null_correct fsc i p) = length fsc"
  by (simp add: null_correct_def)

lemma null_correct_same: "i < length fsc \<Longrightarrow> null_correct fsc i p ! i = corrected_value (fsc ! i) p"
  by (cases p) (simp_all add: null_correct_def corrected_value_def)

lemma null_correct_other: "j \<noteq> i \<Longrightarrow> null_correct fsc i p ! j = fsc ! j"
  by (simp add: null_correct_def)

lemma correct_loop_upt:
  "length (snd (correct_loop dists vol1 vol2 D phase_D [a..<n] (\<lambda>x. vox dists x < real a - 1, fsc))) = length fsc
   \<and> (\<forall>j<length fsc.
        snd (correct_loop dists vol1 vol2 D phase_D [a..<n] (\<lambda>x. vox dists x < real a - 1, fsc)) ! j =
        (if a \<le> j \<and> j < n \<and> phase_D < int j
         then corrected_value (fsc ! j) (ring_corr dists vol1 vol2 D j) else fsc ! j))"
proof (induction "n - a" arbitrary: a fsc)
  case 0
  then show ?case by auto
next
  case (Suc k)
  then have lt: "a < n" and k: "k = n - Suc a" by simp_all
  define fsc' where "fsc' = (if phase_D < int a
      then null_correct fsc a (ring_corr dists vol1 vol2 D a) else fsc)"
  have step: "correct_loop dists vol1 vol2 D phase_D [a..<n] (\<lambda>x. vox dists x < real a - 1, fsc) =
        correct_loop dists vol1 vol2 D phase_D [Suc a..<n] (\<lambda>x. vox dists x < real (Suc a) - 1, fsc')"
    using lt by (simp add: upt_conv_Cons Let_def ring_corr_def fsc'_def)
  have len: "length fsc' = length fsc" by (simp add: fsc'_def length_null_correct)
  note IH = Suc.hyps(1)[OF k, of fsc', unfolded len]
  show ?case
  proof (intro conjI allI impI)
    show "length (snd (correct_loop dists vol1 vol2 D phase_D [a..<n] (\<lambda>x. vox dists x < real a - 1, fsc))) = length fsc"
      unfolding step using IH by simp
  next
    fix j assume j: "j < length fsc"
    have "snd (correct_loop dists vol1 vol2 D phase_D [a..<n] (\<lambda>x. vox dists x < real a - 1, fsc)) ! j =
        (if Suc a \<le> j \<and> j < n \<and> phase_D < int j
         then corrected_value (fsc' ! j) (ring_corr dists vol1 vol2 D j) else fsc' ! j)"
      unfolding step using IH j by simp
    also have "\<dots> = (if a \<le> j \<and> j < n \<and> phase_D < int j
         then corrected_value (fsc ! j) (ring_corr dists vol1 vol2 D j) else fsc ! j)"
    proof (cases "j = a")
      case True
      then show ?thesis using lt j by (simp add: fsc'_def null_correct_same)
    next
      case False
      then have "fsc' ! j = fsc ! j" by (simp add: fsc'_def null_correct_other)
      with False show ?thesis by (simp add: Suc_le_eq le_less)
    qed
    finally show "snd (correct_loop dists vol1 vol2 D phase_D [a..<n] (\<lambda>x. vox dists x < real a - 1, fsc)) ! j =
        (if a \<le> j \<and> j < n \<and> phase_D < int j
         then corrected_value (fsc ! j) (ring_corr dists vol1 vol2 D j) else fsc ! j)" .
  qed
qed

lemma correct_loop_init:
  "length (snd (correct_loop (dists_of D) vol1 vol2 D phase_D [Suc 0..<n] (\<lambda>x. False, fsc))) = length fsc"
  "j < length fsc \<Longrightarrow>
     snd (correct_loop (dists_of D) vol1 vol2 D phase_D [Suc 0..<n] (\<lambda>x. False, fsc)) ! j =
        (if 1 \<le> j \<and> j < n \<and> phase_D < int j
         then corrected_value (fsc ! j) (ring_corr (dists_of D) vol1 vol2 D j) else fsc ! j)"
proof -
  have z: "(\<lambda>x. False) = (\<lambda>x. vox (dists_of D) x < real (Suc 0) - 1)"
  proof
    fix x show "False = (vox (dists_of D) x < real (Suc 0) - 1)"
      using vox_dists_nonneg[of D x] by simp
  qed
  note L = correct_loop_upt[of "dists_of D" vol1 vol2 D phase_D "Suc 0" n fsc, folded z]
  show "length (snd (correct_loop (dists_of D) vol1 vol2 D phase_D [Suc 0..<n] (\<lambda>x. False, fsc))) = length fsc"
    using L by simp
  show "j < length fsc \<Longrightarrow>
     snd (correct_loop (dists_of D) vol1 vol2 D phase_D [Suc 0..<n] (\<lambda>x. False, fsc)) ! j =
        (if 1 \<le> j \<and> j < n \<and> phase_D < int j
         then corrected_value (fsc ! j) (ring_corr (dists_of D) vol1 vol2 D j) else fsc ! j)"
    using L by simp
qed

lemma ring_corr_spec:
  "ring_corr (dists_of D) vol1 vol2 D i =
     spec_shell_value (map (vox vol1) (ring_voxels D i)) (map (vox vol2) (ring_voxels D i))"
  unfolding ring_corr_def ring_voxels_def Let_def by (rule shell_corr_spec)

lemma correct_fsc_value:
  assumes "even (shape0 (tensor1 h0))" and "0 < shape0 (tensor1 h0)"
    and "length fsc_vals = shape0 (tensor1 h0) div 2"
  shows "\<exists>fsc. snd (correct_fsc E fsc_vals thr m h0) = Inr (zip (pixres_axis (shape0 (tensor1 h0))) fsc)
     \<and> length fsc = length fsc_vals
     \<and> (\<forall>j<length fsc_vals. fsc ! j =
          (if 1 \<le> j \<and> phase_index E thr m h0 < int j
           then corrected_value (snd (fsc_vals ! j)) (p_loop E thr m h0 j)
           else snd (fsc_vals ! j)))"
proof -
  define D where "D = shape0 (tensor1 h0)"
  define h where "h = apply_mask m h0"
  define pD where "pD = phase_index E thr m h0"
  define vs where "vs = loop_volumes E thr m h0"
  define fsc where "fsc = snd (correct_loop (dists_of D) (fst vs) (snd vs) D pD
                              [Suc 0..<D div 2] (\<lambda>x. False, map snd fsc_vals))"
  have sh: "shape0 (tensor1 h) = D" by (simp add: h_def D_def shape0_apply_mask)
  have g: "get_fftn_dists D = Inr (dists_of D)"
    using assms(1,2) unfolding D_def by (rule get_fftn_dists_ok)
  have len: "length fsc = length fsc_vals"
    unfolding fsc_def by (simp add: correct_loop_init(1))
  have val: "snd (correct_fsc E fsc_vals thr m h0) = Inr (zip (pixres_axis D) fsc)"
    unfolding correct_fsc_def Let_def h_def[symmetric] sh g
    using assms(3) len
    by (simp add: D_def[symmetric] DataFrame_def length_pixres_axis fsc_def vs_def loop_volumes_def
          Let_def h_def[symmetric] sh pD_def phase_index_def)
  have nth: "fsc ! j =
          (if 1 \<le> j \<and> pD < int j
           then corrected_value (snd (fsc_vals ! j)) (p_loop E thr m h0 j)
           else snd (fsc_vals ! j))" if "j < length fsc_vals" for j
  proof -
    have "j < D div 2" using that assms(3) by (simp add: D_def)
    then show ?thesis
      unfolding fsc_def using that
      by (simp add: correct_loop_init(2) ring_corr_spec p_loop_def Let_def D_def[symmetric] vs_def)
  qed
  show ?thesis
    unfolding D_def[symmetric] pD_def[symmetric] using val len nth by blast
qed

lemma fold_upd_outside:
  "x \<notin> fst ` set kvs \<Longrightarrow> fold (\<lambda>xv f. f(fst xv := snd xv)) kvs f x = f x"
  by (induction kvs arbitrary: f) auto

lemma scramble_outside: "x \<notin> set region \<Longrightarrow> vox (scramble region inds vol) x = vox vol x"
proof -
  assume x: "x \<notin> set region"
  have "fst ` set (zip region (map (\<lambda>k. map (vox vol) region ! k) inds)) \<subseteq> set region"
    by (auto dest: set_zip_leftD)
  with x have "x \<notin> fst ` set (zip region (map (\<lambda>k. map (vox vol) region ! k) inds))" by blast
  then show ?thesis
    unfolding scramble_def masked_assign_def by (simp add: fold_upd_outside)
qed

lemma center_not_in_region: "(2, 2, 2) \<notin> set (np_where 4 (\<lambda>x. real_of_int 0 < vox (dists_of 4) x))"
  unfolding np_where_def using center_dist[of 4] by simp

lemma index_in_less: "x \<in> set xs \<Longrightarrow> index_in xs x < length xs"
  unfolding index_in_def by (induction xs) auto

lemma fold_upd_distinct:
  "distinct ks \<Longrightarrow> length vs = length ks \<Longrightarrow>
   fold (\<lambda>xv f. f(fst xv := snd xv)) (zip ks vs) f x =
     (if x \<in> set ks then vs ! index_in ks x else f x)"
proof (induction ks arbitrary: vs f)
  case Nil
  then show ?case by simp
next
  case (Cons k ks)
  then obtain v vs' where vs: "vs = v # vs'" by (cases vs) auto
  have d: "distinct ks" "k \<notin> set ks" and l: "length vs' = length ks"
    using Cons.prems by (simp_all add: vs)
  have step: "fold (\<lambda>xv f. f(fst xv := snd xv)) (zip (k # ks) vs) f =
              fold (\<lambda>xv f. f(fst xv := snd xv)) (zip ks vs') (f(k := v))"
    by (simp add: vs)
  note IH = Cons.IH[OF d(1) l, of "f(k := v)"]
  show ?case
  proof (cases "x = k")
    case True
    then show ?thesis unfolding step IH using d(2) by (simp add: vs index_in_def)
  next
    case False
    then show ?thesis unfolding step IH by (simp add: vs index_in_def)
  qed
qed

lemma distinct_all_idx: "distinct (all_idx D)"
  unfolding all_idx_def by (simp add: distinct_product)

lemma scramble_explicit:
  assumes "distinct region" and "length perm = length region"
    and "set perm \<subseteq> {..<length region}"
  shows "scramble region perm vol = permuted_region region perm vol"
proof -
  let ?vals = "map (\<lambda>k. map (vox vol) region ! k) perm"
  have "fold (\<lambda>xv f. f(fst xv := snd xv)) (zip region ?vals) (vox vol) x =
        (if x \<in> set region then vox vol (region ! (perm ! index_in region x)) else vox vol x)" for x
  proof (cases "x \<in> set region")
    case False
    then show ?thesis using fold_upd_distinct[OF assms(1), of ?vals "vox vol" x] assms(2) by simp
  next
    case True
    then have i: "index_in region x < length perm" using index_in_less[OF True] assms(2) by simp
    then have "perm ! index_in region x \<in> set perm" by simp
    then have p: "perm ! index_in region x < length region" using assms(3) by auto
    show ?thesis
      using fold_upd_distinct[OF assms(1), of ?vals "vox vol" x] assms(2) True i p by simp
  qed
  then show ?thesis
    unfolding scramble_def masked_assign_def permuted_region_def by presburger
qed

lemma randomize_phases_explicit:
  assumes "shuffle_permutes E"
  shows "fst (randomize_phases E D (dists_of D) phase_D vol1 vol2 g) =
     (permuted_region (phase_region D phase_D)
        (fst (shuffle E g [0..<length (phase_region D phase_D)])) vol1,
      permuted_region (phase_region D phase_D)
        (fst (shuffle E (snd (shuffle E g [0..<length (phase_region D phase_D)]))
                (fst (shuffle E g [0..<length (phase_region D phase_D)])))) vol2)"
proof -
  define region where "region = phase_region D phase_D"
  define s1 where "s1 = shuffle E g [0..<length region]"
  define s2 where "s2 = shuffle E (snd s1) (fst s1)"
  have r: "np_where D (\<lambda>x. real_of_int phase_D < vox (dists_of D) x) = region"
    by (simp add: region_def phase_region_def np_where_def)
  have d: "distinct region"
    unfolding region_def phase_region_def using distinct_all_idx by (rule distinct_filter)
  have l1: "length (fst s1) = length region" and e1: "set (fst s1) = {..<length region}"
    using assms unfolding shuffle_permutes_def s1_def by (simp_all add: atLeast0LessThan)
  have l2: "length (fst s2) = length region" and e2: "set (fst s2) = {..<length region}"
    using assms l1 e1 unfolding shuffle_permutes_def s2_def by simp_all
  have "scramble region (fst s1) vol1 = permuted_region region (fst s1) vol1"
    using d l1 e1 by (intro scramble_explicit) simp_all
  moreover have "scramble region (fst s2) vol2 = permuted_region region (fst s2) vol2"
    using d l2 e2 by (intro scramble_explicit) simp_all
  ultimately show ?thesis
    unfolding randomize_phases_def Let_def r
    by (simp add: s1_def[symmetric] s2_def[symmetric] region_def[symmetric])
qed

lemma p_loop_explicit:
  assumes "shuffle_permutes E"
  shows "p_loop E thr m h0 i = p_random E thr m h0 i"
  unfolding p_loop_def loop_volumes_def p_random_def phase_index_def Let_def
    randomize_phases_explicit[OF assms] tensors_apply_mask shape0_scaled
  by simp

lemma length_region6: "length region6 = 215"
  by code_simp

lemma ring6_in_region: "list_all (\<lambda>x. x \<in> set region6) ring6"
  by code_simp

lemma ring6_int: "filter (\<lambda>x. sqdist 6 x < (int 2)\<^sup>2 \<and> \<not> sqdist 6 x < (int (2 - 1))\<^sup>2) (all_idx 6) = ring6"
  by code_simp

lemma sources_first:
  "map (\<lambda>x. region6 ! (rotate1 [0..<215] ! index_in region6 x)) ring6 = [(2, 2, 3), (2, 2, 4), (2, 2, 5), (2, 3, 3), (2, 3, 4), (2, 3, 5), (2, 4, 3), (2, 4, 4), (2, 4, 5), (3, 2, 3), (3, 2, 4), (3, 2, 5), (3, 3, 4), (3, 3, 5), (3, 4, 3), (3, 4, 4), (3, 4, 5), (4, 2, 3), (4, 2, 4), (4, 2, 5), (4, 3, 3), (4, 3, 4), (4, 3, 5), (4, 4, 3), (4, 4, 4), (4, 4, 5)]"
  by code_simp

lemma sources_second:
  "map (\<lambda>x. region6 ! (rotate1 (rotate1 [0..<215]) ! index_in region6 x)) ring6 = [(2, 2, 4), (2, 2, 5), (2, 3, 0), (2, 3, 4), (2, 3, 5), (2, 4, 0), (2, 4, 4), (2, 4, 5), (2, 5, 0), (3, 2, 4), (3, 2, 5), (3, 3, 0), (3, 3, 5), (3, 4, 0), (3, 4, 4), (3, 4, 5), (3, 5, 0), (4, 2, 4), (4, 2, 5), (4, 3, 0), (4, 3, 4), (4, 3, 5), (4, 4, 0), (4, 4, 4), (4, 4, 5), (4, 5, 0)]"
  by code_simp

lemma vox_dists_sqdist:
  assumes "a < D" "b < D" "c < D"
  shows "vox (dists_of D) (a, b, c) = sqrt (real_of_int (sqdist D (a, b, c)))"
  using assms unfolding dists_of_def sqdist_def by (simp add: Let_def nth_coord_axis)

lemma sqdist_nonneg: "0 \<le> sqdist D x"
  unfolding sqdist_def by (cases x) simp

lemma phase_region_int:
  assumes "0 \<le> phase_D"
  shows "phase_region D phase_D = filter (\<lambda>x. phase_D\<^sup>2 < sqdist D x) (all_idx D)"
  unfolding phase_region_def
proof (rule filter_cong[OF refl])
  fix x assume "x \<in> set (all_idx D)"
  then obtain a b c where x: "x = (a, b, c)" and lt: "a < D" "b < D" "c < D"
    by (auto simp: set_all_idx)
  have "real_of_int phase_D = sqrt ((real_of_int phase_D)\<^sup>2)" using assms by simp
  then have "(real_of_int phase_D < sqrt (real_of_int (sqdist D x))) =
             (sqrt ((real_of_int phase_D)\<^sup>2) < sqrt (real_of_int (sqdist D x)))" by simp
  also have "\<dots> = ((real_of_int phase_D)\<^sup>2 < real_of_int (sqdist D x))"
    by (rule real_sqrt_less_iff)
  also have "\<dots> = (real_of_int (phase_D\<^sup>2) < real_of_int (sqdist D x))" by simp
  also have "\<dots> = (phase_D\<^sup>2 < sqdist D x)" by (rule of_int_less_iff)
  finally show "(real_of_int phase_D < vox (dists_of D) x) = (phase_D\<^sup>2 < sqdist D x)"
    unfolding x vox_dists_sqdist[OF lt] .
qed

lemma phase_region_6_0: "phase_region 6 0 = region6"
  unfolding region6_def using phase_region_int[of 0 6] by simp

lemma ring_6_2: "ring_voxels 6 2 = ring6"
  using ring_voxels_int[of 2 6] ring6_int by simp

lemma ring_6_1: "ring_voxels 6 1 = [(3, 3, 3)]"
proof -
  have "filter (\<lambda>x. sqdist 6 x < (int 1)\<^sup>2 \<and> \<not> sqdist 6 x < (int (1 - 1))\<^sup>2) (all_idx 6) = [(3, 3, 3)]"
    by code_simp
  then show ?thesis using ring_voxels_int[of 1 6] by simp
qed

lemma centre_outside_region6: "(3, 3, 3) \<notin> set region6"
  by code_simp

lemma map_permuted_region:
  assumes "list_all (\<lambda>x. x \<in> set region) xs"
  shows "map (vox (permuted_region region perm vol)) xs =
         map (vox vol) (map (\<lambda>x. region ! (perm ! index_in region x)) xs)"
  using assms by (induction xs) (simp_all add: permuted_region_def)

lemma sqrt_25: "sqrt 25 = 5"
  using real_sqrt_abs[of 5] by simp

lemma shuffle_permutes_rot: "shuffle_permutes env_rot"
  by (simp add: shuffle_permutes_def env_rot_def)

lemma p_random_6_2: "p_random env_rot 0 None heap6 2 = Fin (3 / 5)"
proof -
  have D: "shape0 (tensor1 heap6) = 6" by (simp add: heap6_def)
  have pD: "py_int (0 * real (shape0 (fftn_center env_rot (scaled (tensor1 heap6) None)))) = 0"
    by (simp add: py_int_def)
  have sh: "shuffle env_rot = (\<lambda>g xs. (rotate1 xs, g))" by (simp add: env_rot_def)
  have v1: "map (vox (fftn_center env_rot (scaled (tensor1 heap6) None)))
              (map (\<lambda>x. region6 ! (rotate1 [0..<215] ! index_in region6 x)) ring6) =
            [0, 0, 0, 0, 0, 0, 0, 0, 0, 0, 0, 0, 0, 1, 0, 0, 0, 0, 0, 0, 0, 0, 0, 0, 0, 0]"
    unfolding sources_first
    by (simp add: env_rot_def env0_def embed_center_def scaled_def heap6_def)
  have v2: "map (vox (fftn_center env_rot (scaled (tensor2 heap6) None)))
              (map (\<lambda>x. region6 ! (rotate1 (rotate1 [0..<215]) ! index_in region6 x)) ring6) =
            [0, 0, 0, 0, 0, 0, 0, 0, 0, 0, 0, 0, 4, 3, 0, 0, 0, 0, 0, 0, 0, 0, 0, 0, 0, 0]"
    unfolding sources_second
    by (simp add: env_rot_def env0_def embed_center_def scaled_def heap6_def)
  show ?thesis
    unfolding p_random_def Let_def D pD phase_region_6_0 length_region6 ring_6_2 sh fst_conv snd_conv
      map_permuted_region[OF ring6_in_region] v1 v2
    by (simp add: spec_shell_value_def np_vdot_def sqrt_25)
qed

lemma p_random_6_1: "p_random env_rot 0 None heap6 1 = Fin (- 1)"
proof -
  have D: "shape0 (tensor1 heap6) = 6" by (simp add: heap6_def)
  have pD: "py_int (0 * real (shape0 (fftn_center env_rot (scaled (tensor1 heap6) None)))) = 0"
    by (simp add: py_int_def)
  show ?thesis
    unfolding p_random_def Let_def D pD phase_region_6_0 ring_6_1
    using centre_outside_region6
    by (simp add: permuted_region_def env_rot_def env0_def embed_center_def scaled_def heap6_def
          spec_shell_value_def np_vdot_def)
qed

text \<open>
  Claim C5. For a call of \<^verbatim>\<open>correct_fsc\<close> with a curve of length \<open>D div 2\<close> (\<open>D\<close> even and
  positive) and a generator whose shuffles return the entries they were given, the call
  returns a curve of the same length in which every entry with index \<open>i \<le> phase_D\<close> is
  the input's, and every shell \<open>i \<ge> 1\<close> with \<open>i > phase_D\<close> is
  \<open>clip ((fsc_raw - p_random) / (1 - p_random), 0, 1)\<close>, except that \<open>p_random = 1\<close> gives 0
  and a NaN \<open>p_random\<close> leaves the input value. Here \<open>p_random\<close> is the correlation over
  the ring of shell \<open>i\<close> of the two masked and transformed volumes after their values
  at the voxels of distance above \<open>phase_D\<close> have been permuted, the first volume by the
  generator's shuffle of \<open>0, \<dots>, n - 1\<close> and the second by its shuffle of that shuffled
  list. The DC entry (index 0, which is no Fourier shell and which the loop never
  visits) is the input's for every threshold.
\<close>

theorem correct_fsc_shells:
  assumes "even (shape0 (tensor1 h0))" and "0 < shape0 (tensor1 h0)"
    and "length fsc_vals = shape0 (tensor1 h0) div 2"
    and "shuffle_permutes E"
  shows "\<exists>out. snd (correct_fsc E fsc_vals thr m h0) = Inr out
     \<and> length out = length fsc_vals
     \<and> (\<forall>i<length fsc_vals.
          (int i \<le> phase_index E thr m h0 \<longrightarrow> snd (out ! i) = snd (fsc_vals ! i))
        \<and> (1 \<le> i \<and> phase_index E thr m h0 < int i \<longrightarrow>
             snd (out ! i) = corrected_value (snd (fsc_vals ! i)) (p_random E thr m h0 i))
        \<and> (i = 0 \<longrightarrow> snd (out ! i) = snd (fsc_vals ! i)))"
proof -
  define D where "D = shape0 (tensor1 h0)"
  from correct_fsc_value[OF assms(1,2,3), of E thr m]
  obtain fsc where val: "snd (correct_fsc E fsc_vals thr m h0) = Inr (zip (pixres_axis D) fsc)"
    and len: "length fsc = length fsc_vals"
    and nth: "\<And>j. j < length fsc_vals \<Longrightarrow> fsc ! j =
          (if 1 \<le> j \<and> phase_index E thr m h0 < int j
           then corrected_value (snd (fsc_vals ! j)) (p_random E thr m h0 j)
           else snd (fsc_vals ! j))"
    unfolding D_def p_loop_explicit[OF assms(4)] by blast
  have lp: "length (pixres_axis D) = length fsc_vals"
    using assms(3) by (simp add: length_pixres_axis D_def)
  have zn: "snd (zip (pixres_axis D) fsc ! i) = fsc ! i" if "i < length fsc_vals" for i
    using that len lp by simp
  have "length (zip (pixres_axis D) fsc) = length fsc_vals"
    using len lp by simp
  moreover have "\<forall>i<length fsc_vals.
          (int i \<le> phase_index E thr m h0 \<longrightarrow>
             snd (zip (pixres_axis D) fsc ! i) = snd (fsc_vals ! i))
        \<and> (1 \<le> i \<and> phase_index E thr m h0 < int i \<longrightarrow>
             snd (zip (pixres_axis D) fsc ! i) =
               corrected_value (snd (fsc_vals ! i)) (p_random E thr m h0 i))
        \<and> (i = 0 \<longrightarrow> snd (zip (pixres_axis D) fsc ! i) = snd (fsc_vals ! i))"
    by (auto simp: zn nth)
  ultimately show ?thesis using val by blast
qed

lemma phase_index_6: "phase_index env_rot 0 None heap6 = 0"
  by (simp add: phase_index_def py_int_def)

theorem correct_fsc_shells_witness:
  "\<exists>out. snd (correct_fsc env_rot curve6 0 None heap6) = Inr out
     \<and> length out = 3 \<and> snd (out ! 0) = Fin 1 \<and> snd (out ! 1) = Fin (19 / 20)
     \<and> snd (out ! 2) = Fin (1 / 2)"
proof -
  have D: "shape0 (tensor1 heap6) = 6" by (simp add: heap6_def)
  have "even (shape0 (tensor1 heap6))" and "0 < shape0 (tensor1 heap6)"
    and "length curve6 = shape0 (tensor1 heap6) div 2"
    unfolding D by (simp_all add: curve6_def)
  from correct_fsc_shells[OF this shuffle_permutes_rot, of 0 None]
  obtain out where r: "snd (correct_fsc env_rot curve6 0 None heap6) = Inr out"
    and l: "length out = length curve6"
    and a: "\<forall>i<length curve6.
          (int i \<le> phase_index env_rot 0 None heap6 \<longrightarrow> snd (out ! i) = snd (curve6 ! i))
        \<and> (1 \<le> i \<and> phase_index env_rot 0 None heap6 < int i \<longrightarrow>
             snd (out ! i) = corrected_value (snd (curve6 ! i)) (p_random env_rot 0 None heap6 i))
        \<and> (i = 0 \<longrightarrow> snd (out ! i) = snd (curve6 ! i))"
    by blast
  have "snd (out ! 0) = Fin 1" using a[rule_format, of 0] by (simp add: curve6_def)
  moreover have "snd (out ! 1) = Fin (19 / 20)"
    using a[rule_format, of 1] p_random_6_1
    by (simp add: curve6_def phase_index_6 corrected_value_def np_clip_def null_rescale_def)
  moreover have "snd (out ! 2) = Fin (1 / 2)"
    using a[rule_format, of 2] p_random_6_2
    by (simp add: curve6_def phase_index_6 corrected_value_def np_clip_def null_rescale_def)
  ultimately show ?thesis using r l by (simp add: curve6_def)
qed

text \<open>Without the permutations shell 2 would have no power in the first volume.\<close>

lemma unpermuted_shell_6_2:
  "spec_shell_value (map (vox (fftn_center env_rot (tensor1 heap6))) (ring_voxels 6 2))
                    (map (vox (fftn_center env_rot (tensor2 heap6))) (ring_voxels 6 2)) = NaN"
  unfolding ring_6_2
  by (simp add: ring6_def env_rot_def env0_def embed_center_def heap6_def spec_shell_value_def np_vdot_def)

text \<open>
  Claim C8. For volumes of even side \<open>D\<close> (positive), \<^verbatim>\<open>correct_fsc\<close> raises if and only if
  the length of the curve differs from \<open>D div 2\<close>, and the error is then the ValueError of
  the length check; with a curve of length \<open>D div 2\<close> it returns a curve.
\<close>

theorem correct_fsc_length_error:
  assumes "even (shape0 (tensor1 h0))" and "0 < shape0 (tensor1 h0)"
  shows "((\<exists>e. snd (correct_fsc E fsc_vals thr m h0) = Inl e) \<longleftrightarrow>
            length fsc_vals \<noteq> shape0 (tensor1 h0) div 2)
     \<and> (length fsc_vals \<noteq> shape0 (tensor1 h0) div 2 \<longrightarrow>
          snd (correct_fsc E fsc_vals thr m h0) =
            Inl (ValueError_fsc_length (shape0 (tensor1 h0) div 2 + 1) (length fsc_vals)))
     \<and> (length fsc_vals = shape0 (tensor1 h0) div 2 \<longrightarrow>
          (\<exists>out. snd (correct_fsc E fsc_vals thr m h0) = Inr out))"
proof (cases "length fsc_vals = shape0 (tensor1 h0) div 2")
  case True
  from correct_fsc_value[OF assms True, of E thr m]
  obtain out where "snd (correct_fsc E fsc_vals thr m h0) = Inr out" by blast
  with True show ?thesis by simp
next
  case False
  then have "snd (correct_fsc E fsc_vals thr m h0) =
            Inl (ValueError_fsc_length (shape0 (tensor1 h0) div 2 + 1) (length fsc_vals))"
    by (simp add: correct_fsc_def Let_def shape0_apply_mask)
  with False show ?thesis by simp
qed

theorem correct_fsc_length_error_witness:
  "snd (correct_fsc env0 [(0, Fin 1)] 0 None heap4) = Inl (ValueError_fsc_length 3 1)
   \<and> (\<exists>out. snd (correct_fsc env0 curve4 0 None heap4) = Inr out)"
proof -
  have D: "shape0 (tensor1 heap4) = 4" by (simp add: heap4_def)
  have h: "even (shape0 (tensor1 heap4))" "0 < shape0 (tensor1 heap4)"
    unfolding D by simp_all
  show ?thesis
    using correct_fsc_length_error[OF h, of env0 "[(0, Fin 1)]" 0 None]
      correct_fsc_length_error[OF h, of env0 curve4 0 None]
    unfolding D by (simp add: curve4_def)
qed

section \<open>Properties of \<^verbatim>\<open>main\<close>\<close>

lemma call_calculate_fsc_main:
  "call_calculate_fsc E [v1, v2, m, c] [(''out_file'', f)] g tr =
     (tr, Inl (TypeError_multiple_values ''out_file''))"
  by (simp add: call_calculate_fsc_def bind_args_def calculate_fsc_params_def)

lemma main_two_raises:
  "main_two E a vols m apix_val plot_file g tr =
     (tr, Inl (if corrected a \<noteq> None \<and> 1 \<le> the (corrected a) \<and> apix_val = 0
               then ZeroDivisionError else TypeError_multiple_values ''out_file''))"
  by (cases "corrected a") (simp_all add: main_two_def call_calculate_fsc_main)

lemma resolve_apix_env0: "resolve_apix None (map (from_file env0) fs) = Inr 1"
  by (simp add: resolve_apix_def env0_def filter_empty_conv[THEN iffD2] o_def)

text \<open>
  Claim C2 (the code fails it). With exactly two volume files \<^verbatim>\<open>main\<close> never returns:
  once the pixel size is resolved, the call of \<^verbatim>\<open>calculate_fsc\<close> gives \<^verbatim>\<open>out_file\<close> two
  values, the fourth positional argument \<^verbatim>\<open>args.corrected\<close> and the keyword, which is a
  TypeError before the body of \<^verbatim>\<open>calculate_fsc\<close> runs.
\<close>

theorem main_two_volumes_raises:
  assumes "length (volumes a) = 2"
  shows "(\<exists>e. snd (main E a g) = Inl e)
     \<and> (\<forall>apix_val. resolve_apix (Apix a) (map (from_file E) (volumes a)) = Inr apix_val
            \<and> apix_val \<noteq> 0 \<longrightarrow>
          snd (main E a g) = Inl (TypeError_multiple_values ''out_file''))"
  using assms
  by (auto simp: main_def Let_def main_two_raises split: sum.splits)

theorem main_two_volumes_raises_witness:
  "snd (main env0 args_two ()) = Inl (TypeError_multiple_values ''out_file'')"
proof -
  have l: "length (volumes args_two) = 2" by (simp add: args_two_def)
  have r: "resolve_apix (Apix args_two) (map (from_file env0) (volumes args_two)) = Inr 1"
    using resolve_apix_env0[of "volumes args_two"] by (simp add: args_two_def)
  from main_two_volumes_raises[OF l, of env0 "()"] r show ?thesis by simp
qed

text \<open>
  Claim C9 as stated fails: the pixel size is resolved before the mode is dispatched, so
  three volumes with different pixel sizes and no \<^verbatim>\<open>--Apix\<close> end in the error of that check.
\<close>

theorem main_three_corrected_counterexample:
  "snd (main env_apix args_three_corrected ()) = Inl ValueError_different_apix
   \<and> snd (main env_apix args_three_corrected ()) \<noteq> Inl ValueError_corrected_with_three_volumes"
proof -
  have "map apix (map (from_file env_apix) (volumes args_three_corrected)) =
          [Some 1, Some 1, Some (3 / 2)]"
    by (simp add: args_three_corrected_def env_apix_def)
  then have "resolve_apix (Apix args_three_corrected)
          (map (from_file env_apix) (volumes args_three_corrected)) = Inl ValueError_different_apix"
    by (simp add: resolve_apix_def args_three_corrected_def del: not_None_eq)
  then show ?thesis
    by (simp add: main_def Let_def args_three_corrected_def)
qed

text \<open>
  Claim C9, amended. With \<^verbatim>\<open>--corrected\<close> and exactly three volume files \<^verbatim>\<open>main\<close> fails, and
  the only collaborator calls before the failure load the volume files and the mask file:
  no transform, mask construction, output or plot. The error is the input-conflict error
  whenever the pixel size resolves (a non-zero \<^verbatim>\<open>--Apix\<close> is given, or the loaded volumes
  carry at most one distinct pixel size), and the error of the pixel-size check otherwise
  (\<^verbatim>\<open>--Apix\<close> absent or 0, and two loaded volumes with different pixel sizes).
\<close>

theorem main_three_corrected_raises:
  assumes "length (volumes a) = 3" and "corrected a \<noteq> None"
  shows "snd (main E a g) =
           (case resolve_apix (Apix a) (map (from_file E) (volumes a)) of
              Inl e \<Rightarrow> Inl e
            | Inr apix_val \<Rightarrow> Inl ValueError_corrected_with_three_volumes)
     \<and> list_all (\<lambda>ev. \<not> is_computation ev) (fst (main E a g))"
  using assms
  by (auto simp: main_def Let_def main_three_def is_computation_def list_all_iff
      split: sum.splits option.splits)

theorem main_three_corrected_raises_witness:
  "snd (main env0 args_three_corrected ()) = Inl ValueError_corrected_with_three_volumes
   \<and> fst (main env0 args_three_corrected ()) =
       [FromFile ''full.mrc'', FromFile ''half1.mrc'', FromFile ''half2.mrc'']"
proof -
  have l: "length (volumes args_three_corrected) = 3" and c: "corrected args_three_corrected \<noteq> None"
    by (simp_all add: args_three_corrected_def)
  have r: "resolve_apix (Apix args_three_corrected)
             (map (from_file env0) (volumes args_three_corrected)) = Inr 1"
    using resolve_apix_env0[of "volumes args_three_corrected"]
    by (simp add: args_three_corrected_def)
  have t: "fst (main env0 args_three_corrected ()) =
       [FromFile ''full.mrc'', FromFile ''half1.mrc'', FromFile ''half2.mrc'']"
    using r by (simp add: main_def Let_def main_three_def args_three_corrected_def)
  from main_three_corrected_raises[OF l c, of env0 "()"] r t show ?thesis by simp
qed

text \<open>
  Claim C10. When \<^verbatim>\<open>--Apix\<close> is absent or 0 and no loaded volume carries a pixel size, the
  pixel size resolves to exactly 1, and that value is what \<^verbatim>\<open>main\<close> hands to the
  two-volume mode (threshold reporting) and to the three-volume mode (mask construction
  and thresholds).
\<close>

theorem main_default_apix:
  assumes "Apix a = None \<or> Apix a = Some 0"
    and "list_all (\<lambda>f. apix (from_file E f) = None) (volumes a)"
    and "length (volumes a) = 2 \<or> length (volumes a) = 3"
  shows "resolve_apix (Apix a) (map (from_file E) (volumes a)) = Inr 1
     \<and> main E a g =
         (let vols = map (from_file E) (volumes a);
              m = map_option (parse_mrc E) (mask a);
              tr = map FromFile (volumes a) @ (case mask a of None \<Rightarrow> [] | Some f \<Rightarrow> [ParseMrc f])
          in if length (volumes a) = 2
             then main_two E a vols m 1 (plot_file_of a) g tr
             else main_three E a vols m 1 (plot_file_of a) g tr)"
proof -
  have "filter (\<lambda>x. x \<noteq> None) (map apix (map (from_file E) (volumes a))) = []"
    using assms(2) by (auto simp: filter_empty_conv list_all_iff)
  then have r: "resolve_apix (Apix a) (map (from_file E) (volumes a)) = Inr 1"
    using assms(1) by (auto simp: resolve_apix_def)
  show ?thesis
    using assms(3) r by (auto simp: main_def Let_def)
qed

theorem main_default_apix_witness:
  "resolve_apix (Apix args_apix_zero) (map (from_file env0) (volumes args_apix_zero)) = Inr 1
   \<and> main env0 args_apix_zero () =
       main_three env0 args_apix_zero (map (from_file env0) (volumes args_apix_zero)) None 1 None ()
         [FromFile ''full.mrc'', FromFile ''half1.mrc'', FromFile ''half2.mrc'']"
proof -
  have a: "Apix args_apix_zero = None \<or> Apix args_apix_zero = Some 0"
    by (simp add: args_apix_zero_def)
  have b: "list_all (\<lambda>f. apix (from_file env0 f) = None) (volumes args_apix_zero)"
    by (simp add: args_apix_zero_def env0_def)
  have c: "length (volumes args_apix_zero) = 2 \<or> length (volumes args_apix_zero) = 3"
    by (simp add: args_apix_zero_def)
  have p: "plot_file_of args_apix_zero = None"
    by (simp add: plot_file_of_def truthy_plot_def args_apix_zero_def)
  from main_default_apix[OF a b c, of "()"] p show ?thesis
    by (simp add: Let_def args_apix_zero_def)
qed

section \<open>Properties of \<^verbatim>\<open>calculate_cryosparc_fscs\<close>\<close>

lemma calculate_fsc_heap:
  "tensor1 (fst (calculate_fsc E m out_file h)) = scaled (tensor1 h) m"
  "tensor2 (fst (calculate_fsc E m out_file h)) = scaled (tensor2 h) m"
  "rng (fst (calculate_fsc E m out_file h)) = rng h"
  by (simp_all add: calculate_fsc_def Let_def tensors_apply_mask split: sum.splits option.splits)

lemma calculate_fsc_curve_of:
  assumes "even (shape0 (tensor1 h))" and "0 < shape0 (tensor1 h)"
  shows "snd (calculate_fsc E m out_file h) =
           Inr (curve_of E (scaled (tensor1 h) m) (scaled (tensor2 h) m))"
  unfolding calculate_fsc_value[OF assms] curve_of_def Let_def tensors_apply_mask shape0_scaled
  by simp

lemma fsc_for_masks_value:
  assumes "even (shape0 (tensor1 h))" and "0 < shape0 (tensor1 h)"
  shows "snd (fsc_for_masks E masks h) = Inr (mask_curves E masks (tensor1 h) (tensor2 h))"
  using assms
proof (induction masks arbitrary: h)
  case Nil
  then show ?case by simp
next
  case (Cons lm rest)
  obtain h1 r where c: "calculate_fsc E (snd lm) None h = (h1, r)" by (cases "calculate_fsc E (snd lm) None h")
  have r: "r = Inr (curve_of E (scaled (tensor1 h) (snd lm)) (scaled (tensor2 h) (snd lm)))"
    using calculate_fsc_curve_of[OF Cons.prems, of E "snd lm" None] c by simp
  have h1: "tensor1 h1 = scaled (tensor1 h) (snd lm)" "tensor2 h1 = scaled (tensor2 h) (snd lm)"
    using calculate_fsc_heap(1,2)[of E "snd lm" None h] c by simp_all
  have "even (shape0 (tensor1 h1))" "0 < shape0 (tensor1 h1)"
    using Cons.prems by (simp_all add: h1 shape0_scaled)
  from Cons.IH[OF this] have ih: "snd (fsc_for_masks E rest h1) =
      Inr (mask_curves E rest (scaled (tensor1 h) (snd lm)) (scaled (tensor2 h) (snd lm)))"
    by (simp add: h1)
  obtain h2 r2 where c2: "fsc_for_masks E rest h1 = (h2, r2)" by (cases "fsc_for_masks E rest h1")
  show ?case
    using ih by (simp add: c r c2)
qed

lemma fsc_for_masks_shape:
  "shape0 (tensor1 (fst (fsc_for_masks E masks h))) = shape0 (tensor1 h)"
proof (induction masks arbitrary: h)
  case Nil
  then show ?case by simp
next
  case (Cons lm rest)
  obtain h1 r where c: "calculate_fsc E (snd lm) None h = (h1, r)" by (cases "calculate_fsc E (snd lm) None h")
  have h1: "shape0 (tensor1 h1) = shape0 (tensor1 h)"
    using calculate_fsc_heap(1)[of E "snd lm" None h] c by (simp add: shape0_scaled)
  obtain h2 r2 where c2: "fsc_for_masks E rest h1 = (h2, r2)" by (cases "fsc_for_masks E rest h1")
  show ?case
    using Cons.IH[of h1] by (cases r; cases r2) (simp_all add: c h1 c2)
qed

lemma build_masks_value:
  assumes "tight_mask \<noteq> OtherType"
  shows "snd (build_masks E full_vol sphere_mask loose_mask tight_mask Apix_val h0) =
           Inr [(''No Mask'', None),
                (''Spherical'', Some (sphere_array E full_vol sphere_mask)),
                (''Loose'', Some (loose_array E full_vol loose_mask Apix_val)),
                (''Tight'', Some (tight_array E full_vol tight_mask Apix_val))]"
    and "tensor1 (fst (build_masks E full_vol sphere_mask loose_mask tight_mask Apix_val h0)) = tensor1 h0"
    and "tensor2 (fst (build_masks E full_vol sphere_mask loose_mask tight_mask Apix_val h0)) = tensor2 h0"
  using assms
  by (cases tight_mask; cases sphere_mask;
      simp add: build_masks_def Let_def sphere_array_def loose_array_def tight_array_def)+

lemma length_curve_of: "0 < shape0 v1 \<Longrightarrow> even (shape0 v1) \<Longrightarrow> length (curve_of E v1 v2) = shape0 v1 div 2"
  by (auto simp: curve_of_def Let_def length_pixres_axis elim!: evenE)

lemma add_corrected_value:
  assumes "map_of (curve_vals cs) ''Tight'' = Some tight_vals"
    and "map_of (curve_thresh cs) ''Tight'' = Some tight_thresh"
    and "map_of masks ''Tight'' = Some tight_m"
    and "even (shape0 (tensor1 h))" and "0 < shape0 (tensor1 h)"
    and "length tight_vals = shape0 (tensor1 h) div 2"
  shows "case tight_thresh of
           Some t \<Rightarrow>
             (\<exists>corr. snd (correct_fsc E tight_vals (0.75 * t) tight_m h) = Inr corr
               \<and> snd (add_corrected E masks Apix_val cs h) =
                   Inr \<lparr>curve_vals = curve_vals cs @ [(''Corrected'', corr)],
                        curve_thresh = curve_thresh cs @
                          [(''Corrected'', snd (get_fsc_thresholds corr Apix_val False))]\<rparr>)
         | None \<Rightarrow>
             snd (add_corrected E masks Apix_val cs h) =
               Inr \<lparr>curve_vals = curve_vals cs @ [(''Corrected'', tight_vals)],
                    curve_thresh = curve_thresh cs @ [(''Corrected'', None)]\<rparr>"
proof (cases tight_thresh)
  case None
  then show ?thesis
    using assms(1,2) by (simp add: add_corrected_def dict_get_def)
next
  case (Some t)
  from correct_fsc_value[OF assms(4,5,6), of E "0.75 * t" tight_m]
  obtain corr where c: "snd (correct_fsc E tight_vals (0.75 * t) tight_m h) = Inr corr" by blast
  obtain h1 where c': "correct_fsc E tight_vals (0.75 * t) tight_m h = (h1, Inr corr)"
    using c by (cases "correct_fsc E tight_vals (0.75 * t) tight_m h") simp
  show ?thesis
    using Some assms(1,2,3) c c' by (simp add: add_corrected_def dict_get_def)
qed

lemma cryosparc_curves_value:
  fixes E :: "'g env" and full_vol :: "real tensor" and sphere_mask :: "real tensor option"
    and loose_mask :: "int \<times> int" and tight_mask :: tight_mask_arg and Apix_val :: real
    and h0 :: "'g heap"
  assumes "even (shape0 (tensor1 h0))" and "0 < shape0 (tensor1 h0)" and "tight_mask \<noteq> OtherType"
  defines "sm \<equiv> sphere_array E full_vol sphere_mask"
    and "lm \<equiv> loose_array E full_vol loose_mask Apix_val"
    and "tm \<equiv> tight_array E full_vol tight_mask Apix_val"
  defines "t1 \<equiv> imul (imul (imul (tensor1 h0) sm) lm) tm"
    and "t2 \<equiv> imul (imul (imul (tensor2 h0) sm) lm) tm"
  defines "vals \<equiv> [(''No Mask'', curve_of E (tensor1 h0) (tensor2 h0)),
                    (''Spherical'', curve_of E (imul (tensor1 h0) sm) (imul (tensor2 h0) sm)),
                    (''Loose'', curve_of E (imul (imul (tensor1 h0) sm) lm) (imul (imul (tensor2 h0) sm) lm)),
                    (''Tight'', curve_of E t1 t2)]"
  defines "h1 \<equiv> heap_after_curves E full_vol sphere_mask loose_mask tight_mask Apix_val h0"
  shows "tensor1 h1 = t1 \<and> tensor2 h1 = t2"
    and "case snd (get_fsc_thresholds (curve_of E t1 t2) Apix_val False) of
           Some t \<Rightarrow>
             (\<exists>corr. snd (correct_fsc E (curve_of E t1 t2) (0.75 * t) (Some tm) h1) = Inr corr
               \<and> snd (cryosparc_curves E full_vol sphere_mask loose_mask tight_mask Apix_val h0) =
                   Inr \<lparr>curve_vals = vals @ [(''Corrected'', corr)],
                        curve_thresh =
                          map (\<lambda>lv. (fst lv, snd (get_fsc_thresholds (snd lv) Apix_val False))) vals @
                          [(''Corrected'', snd (get_fsc_thresholds corr Apix_val False))]\<rparr>)
         | None \<Rightarrow>
             snd (cryosparc_curves E full_vol sphere_mask loose_mask tight_mask Apix_val h0) =
               Inr \<lparr>curve_vals = vals @ [(''Corrected'', curve_of E t1 t2)],
                    curve_thresh =
                      map (\<lambda>lv. (fst lv, snd (get_fsc_thresholds (snd lv) Apix_val False))) vals @
                      [(''Corrected'', None)]\<rparr>"
proof -
  define masks where "masks = [(''No Mask'', None), (''Spherical'', Some sm),
                (''Loose'', Some lm), (''Tight'', Some tm)]"
  obtain hb where b: "build_masks E full_vol sphere_mask loose_mask tight_mask Apix_val h0 = (hb, Inr masks)"
    using build_masks_value(1)[OF assms(3), of E full_vol sphere_mask loose_mask Apix_val h0]
    by (cases "build_masks E full_vol sphere_mask loose_mask tight_mask Apix_val h0")
       (simp add: masks_def sm_def lm_def tm_def)
  have hb: "tensor1 hb = tensor1 h0" "tensor2 hb = tensor2 h0"
    using build_masks_value(2,3)[OF assms(3), of E full_vol sphere_mask loose_mask Apix_val h0] b
    by simp_all
  have eb: "even (shape0 (tensor1 hb))" "0 < shape0 (tensor1 hb)"
    using assms(1,2) by (simp_all add: hb)
  have h1: "h1 = fst (fsc_for_masks E masks hb)"
    by (simp add: h1_def heap_after_curves_def b)
  have mc: "mask_curves E masks (tensor1 hb) (tensor2 hb) = vals"
    by (simp add: masks_def vals_def hb scaled_def t1_def t2_def)
  have f: "fsc_for_masks E masks hb = (h1, Inr vals)"
    using fsc_for_masks_value[OF eb, of E masks] h1 mc
    by (cases "fsc_for_masks E masks hb") simp
  have "tensor1 (fst (fsc_for_masks E masks hb)) = t1 \<and> tensor2 (fst (fsc_for_masks E masks hb)) = t2"
  proof -
    obtain ha ra where a: "calculate_fsc E None None hb = (ha, ra)" by (cases "calculate_fsc E None None hb")
    obtain hc rc where c: "calculate_fsc E (Some sm) None ha = (hc, rc)" by (cases "calculate_fsc E (Some sm) None ha")
    obtain hd rd where d: "calculate_fsc E (Some lm) None hc = (hd, rd)" by (cases "calculate_fsc E (Some lm) None hc")
    obtain he re where e: "calculate_fsc E (Some tm) None hd = (he, re)" by (cases "calculate_fsc E (Some tm) None hd")
    have ta: "tensor1 ha = tensor1 h0" "tensor2 ha = tensor2 h0"
      using calculate_fsc_heap(1,2)[of E None None hb] a by (simp_all add: scaled_def hb)
    have tc: "tensor1 hc = imul (tensor1 h0) sm" "tensor2 hc = imul (tensor2 h0) sm"
      using calculate_fsc_heap(1,2)[of E "Some sm" None ha] c by (simp_all add: scaled_def ta)
    have td: "tensor1 hd = imul (imul (tensor1 h0) sm) lm" "tensor2 hd = imul (imul (tensor2 h0) sm) lm"
      using calculate_fsc_heap(1,2)[of E "Some lm" None hc] d by (simp_all add: scaled_def tc)
    have te: "tensor1 he = t1" "tensor2 he = t2"
      using calculate_fsc_heap(1,2)[of E "Some tm" None hd] e by (simp_all add: scaled_def td t1_def t2_def)
    have "fst (fsc_for_masks E masks hb) = he"
      using f a c d e by (simp add: masks_def split: sum.splits)
    with te show ?thesis by simp
  qed
  then show t: "tensor1 h1 = t1 \<and> tensor2 h1 = t2" by (simp add: h1)
  have sh: "shape0 (tensor1 h1) = shape0 (tensor1 h0)"
    using fsc_for_masks_shape[of E masks hb] by (simp add: h1 hb)
  have sh1: "shape0 t1 = shape0 (tensor1 h0)" using t sh by simp
  have len: "length (curve_of E t1 t2) = shape0 (tensor1 h1) div 2"
    using length_curve_of[of t1 E t2] assms(1,2) by (simp add: sh sh1)
  define cs where "cs = \<lparr>curve_vals = vals,
       curve_thresh = map (\<lambda>lv. (fst lv, snd (get_fsc_thresholds (snd lv) Apix_val False))) vals\<rparr>"
  have cc: "cryosparc_curves E full_vol sphere_mask loose_mask tight_mask Apix_val h0 =
          add_corrected E masks Apix_val cs h1"
    by (simp add: cryosparc_curves_def b f cs_def)
  have l1: "map_of (curve_vals cs) ''Tight'' = Some (curve_of E t1 t2)"
    by (simp add: cs_def vals_def)
  have l2: "map_of (curve_thresh cs) ''Tight'' = Some (snd (get_fsc_thresholds (curve_of E t1 t2) Apix_val False))"
    by (simp add: cs_def vals_def)
  have l3: "map_of masks ''Tight'' = Some (Some tm)" by (simp add: masks_def)
  have e1: "even (shape0 (tensor1 h1))" "0 < shape0 (tensor1 h1)"
    using assms(1,2) by (simp_all add: sh)
  from add_corrected_value[OF l1 l2 l3 e1 len, of E Apix_val]
  show "case snd (get_fsc_thresholds (curve_of E t1 t2) Apix_val False) of
           Some t \<Rightarrow>
             (\<exists>corr. snd (correct_fsc E (curve_of E t1 t2) (0.75 * t) (Some tm) h1) = Inr corr
               \<and> snd (cryosparc_curves E full_vol sphere_mask loose_mask tight_mask Apix_val h0) =
                   Inr \<lparr>curve_vals = vals @ [(''Corrected'', corr)],
                        curve_thresh =
                          map (\<lambda>lv. (fst lv, snd (get_fsc_thresholds (snd lv) Apix_val False))) vals @
                          [(''Corrected'', snd (get_fsc_thresholds corr Apix_val False))]\<rparr>)
         | None \<Rightarrow>
             snd (cryosparc_curves E full_vol sphere_mask loose_mask tight_mask Apix_val h0) =
               Inr \<lparr>curve_vals = vals @ [(''Corrected'', curve_of E t1 t2)],
                    curve_thresh =
                      map (\<lambda>lv. (fst lv, snd (get_fsc_thresholds (snd lv) Apix_val False))) vals @
                      [(''Corrected'', None)]\<rparr>"
    unfolding cc by (simp add: cs_def split: option.splits)
qed

text \<open>
  Claim C1 (the code fails it). \<^verbatim>\<open>calculate_fsc\<close> multiplies the caller's two tensors by
  the mask in place, and the orchestrator passes the same two half-map tensors to the
  four calls in turn. So only the No Mask and Spherical curves are curves of the original
  half-maps under that label's mask: the Loose curve is computed from half-maps already
  scaled by the spherical mask, and the Tight curve from half-maps already scaled by the
  spherical and the loose mask.
\<close>

theorem cryosparc_curves_masks_accumulate:
  assumes "even (shape0 (tensor1 h0))" and "0 < shape0 (tensor1 h0)" and "tight_mask \<noteq> OtherType"
  shows "\<exists>cs. snd (cryosparc_curves E full_vol sphere_mask loose_mask tight_mask Apix_val h0) = Inr cs
     \<and> map_of (curve_vals cs) ''No Mask'' = Some (curve_of E (tensor1 h0) (tensor2 h0))
     \<and> map_of (curve_vals cs) ''Spherical'' =
         Some (curve_of E (imul (tensor1 h0) (sphere_array E full_vol sphere_mask))
                          (imul (tensor2 h0) (sphere_array E full_vol sphere_mask)))
     \<and> map_of (curve_vals cs) ''Loose'' =
         Some (curve_of E
                 (imul (imul (tensor1 h0) (sphere_array E full_vol sphere_mask))
                       (loose_array E full_vol loose_mask Apix_val))
                 (imul (imul (tensor2 h0) (sphere_array E full_vol sphere_mask))
                       (loose_array E full_vol loose_mask Apix_val)))
     \<and> map_of (curve_vals cs) ''Tight'' =
         Some (curve_of E
                 (imul (imul (imul (tensor1 h0) (sphere_array E full_vol sphere_mask))
                             (loose_array E full_vol loose_mask Apix_val))
                       (tight_array E full_vol tight_mask Apix_val))
                 (imul (imul (imul (tensor2 h0) (sphere_array E full_vol sphere_mask))
                             (loose_array E full_vol loose_mask Apix_val))
                       (tight_array E full_vol tight_mask Apix_val)))"
  using cryosparc_curves_value(2)[OF assms, of E full_vol sphere_mask loose_mask Apix_val]
  by (auto split: option.splits)

lemma curve_of_4:
  assumes "shape0 v1 = 4"
  shows "curve_of E v1 v2 =
     [(0, Fin 1),
      (1 / 4, spec_shell_value [vox (fftn_center E v1) (2, 2, 2)] [vox (fftn_center E v2) (2, 2, 2)])]"
proof -
  have "[1..<2] = [1::nat]" by (simp add: upt_rec)
  then show ?thesis
    unfolding curve_of_def Let_def assms pixres_axis_def
    using ring_4_1 by (simp add: upt2 ring_corr_spec)
qed

theorem cryosparc_curves_masks_accumulate_witness:
  "(\<exists>cs. snd (cryosparc_curves env_loose full4 None (25, 15) (DilationParams 6 6) 1 heap4) = Inr cs
      \<and> map_of (curve_vals cs) ''Tight'' = Some [(0, Fin 1), (1 / 4, NaN)])
   \<and> snd (calculate_fsc env_loose
            (Some (cosine_dilation_mask env_loose full4 6 6 1)) None heap4) =
       Inr [(0, Fin 1), (1 / 4, Fin (- 1))]"
proof -
  have D: "shape0 (tensor1 heap4) = 4" by (simp add: heap4_def)
  have h: "even (shape0 (tensor1 heap4))" "0 < shape0 (tensor1 heap4)"
    unfolding D by simp_all
  have t: "DilationParams 6 6 \<noteq> OtherType" by simp
  from cryosparc_curves_masks_accumulate[OF h t, of env_loose full4 None "(25, 15)" 1]
  obtain cs where c: "snd (cryosparc_curves env_loose full4 None (25, 15) (DilationParams 6 6) 1 heap4) = Inr cs"
    and tv: "map_of (curve_vals cs) ''Tight'' =
         Some (curve_of env_loose
                 (imul (imul (imul (tensor1 heap4) (sphere_array env_loose full4 None))
                             (loose_array env_loose full4 (25, 15) 1))
                       (tight_array env_loose full4 (DilationParams 6 6) 1))
                 (imul (imul (imul (tensor2 heap4) (sphere_array env_loose full4 None))
                             (loose_array env_loose full4 (25, 15) 1))
                       (tight_array env_loose full4 (DilationParams 6 6) 1)))"
    by blast
  have "map_of (curve_vals cs) ''Tight'' = Some [(0, Fin 1), (1 / 4, NaN)]"
    unfolding tv
    by (subst curve_of_4)
       (simp_all add: imul_def heap4_def env_loose_def env0_def embed_center_def full4_def
          sphere_array_def loose_array_def tight_array_def spec_shell_value_def np_vdot_def)
  moreover have "snd (calculate_fsc env_loose
            (Some (cosine_dilation_mask env_loose full4 6 6 1)) None heap4) =
       Inr [(0, Fin 1), (1 / 4, Fin (- 1))]"
    unfolding calculate_fsc_curve_of[OF h]
    by (subst curve_of_4)
       (simp_all add: scaled_def imul_def heap4_def env_loose_def env0_def embed_center_def
          full4_def spec_shell_value_def np_vdot_def)
  ultimately show ?thesis using c by blast
qed

lemma fsc_for_masks_rng: "rng (fst (fsc_for_masks E masks h)) = rng h"
proof (induction masks arbitrary: h)
  case Nil
  then show ?case by simp
next
  case (Cons lm rest)
  obtain h1 r where c: "calculate_fsc E (snd lm) None h = (h1, r)" by (cases "calculate_fsc E (snd lm) None h")
  have h1: "rng h1 = rng h"
    using calculate_fsc_heap(3)[of E "snd lm" None h] c by simp
  obtain h2 r2 where c2: "fsc_for_masks E rest h1 = (h2, r2)" by (cases "fsc_for_masks E rest h1")
  show ?case
    using Cons.IH[of h1] by (cases r; cases r2) (simp_all add: c h1 c2)
qed

lemma build_masks_rng:
  "rng (fst (build_masks E full_vol sphere_mask loose_mask tight_mask Apix_val h0)) = rng h0"
  by (cases tight_mask; cases sphere_mask; simp add: build_masks_def Let_def)

lemma heap_after_curves_rng:
  "rng (heap_after_curves E full_vol sphere_mask loose_mask tight_mask Apix_val h0) = rng h0"
proof -
  obtain hb r where b: "build_masks E full_vol sphere_mask loose_mask tight_mask Apix_val h0 = (hb, r)"
    by (cases "build_masks E full_vol sphere_mask loose_mask tight_mask Apix_val h0")
  have "rng hb = rng h0"
    using build_masks_rng[of E full_vol sphere_mask loose_mask tight_mask Apix_val h0] b by simp
  then show ?thesis
    by (cases r) (simp_all add: heap_after_curves_def b fsc_for_masks_rng)
qed

lemma correct_fsc_same_inputs:
  assumes "tensor1 h = tensor1 h'" and "tensor2 h = tensor2 h'" and "rng h = rng h'"
  shows "snd (correct_fsc E fsc_vals thr m h) = snd (correct_fsc E fsc_vals thr m h')"
  using assms
  by (simp add: correct_fsc_def Let_def tensors_apply_mask split: sum.splits)

lemma map_fst_curve_of:
  assumes "even (shape0 v1)" and "0 < shape0 v1"
  shows "map fst (curve_of E v1 v2) = pixres_axis (shape0 v1)"
proof -
  have "1 \<le> shape0 v1 div 2" using assms by (auto elim: evenE)
  then show ?thesis
    by (simp add: curve_of_def Let_def length_pixres_axis)
qed

lemma map_fst_correct_fsc:
  assumes "even (shape0 (tensor1 h))" and "0 < shape0 (tensor1 h)"
    and "length fsc_vals = shape0 (tensor1 h) div 2"
    and "snd (correct_fsc E fsc_vals thr m h) = Inr corr"
  shows "map fst corr = pixres_axis (shape0 (tensor1 h))"
proof -
  from correct_fsc_value[OF assms(1,2,3), of E thr m]
  obtain fsc where "snd (correct_fsc E fsc_vals thr m h) = Inr (zip (pixres_axis (shape0 (tensor1 h))) fsc)"
    and "length fsc = length fsc_vals" by blast
  with assms(3,4) show ?thesis by (auto simp: length_pixres_axis)
qed


lemma shape0_imul: "shape0 (imul v m) = shape0 v"
  by (simp add: imul_def)

lemma calculate_cryosparc_fscs_result:
  assumes "snd (cryosparc_curves E full_vol sphere_mask loose_mask tight_mask Apix_val h0) = Inr cs"
    and "list_all (\<lambda>lv. map fst (snd lv) = axis) (curve_vals cs)" and "curve_vals cs \<noteq> []"
  shows "snd (calculate_cryosparc_fscs E full_vol sphere_mask loose_mask tight_mask Apix_val
                out_file plot_file h0) =
           (if plot_file \<noteq> None \<and> list_ex (\<lambda>lt. snd lt = None) (curve_thresh cs)
            then Inl TypeError_none_operand
            else Inr \<lparr>tbl_index = axis,
                      tbl_columns = map (\<lambda>lv. (fst lv, map snd (snd lv))) (curve_vals cs)\<rparr>)"
proof -
  obtain h where c: "cryosparc_curves E full_vol sphere_mask loose_mask tight_mask Apix_val h0 = (h, Inr cs)"
    using assms(1) by (cases "cryosparc_curves E full_vol sphere_mask loose_mask tight_mask Apix_val h0") simp
  have "list_all (\<lambda>x. f x = axis) xs \<Longrightarrow> map f xs = replicate (length xs) axis"
    for f :: "string \<times> frame \<Rightarrow> real list" and xs
    by (induction xs) simp_all
  from this[OF assms(2)]
  have "map (\<lambda>lv. map fst (snd lv)) (curve_vals cs) = replicate (length (curve_vals cs)) axis" .
  moreover have "remdups (replicate n axis) = (if n = 0 then [] else [axis])" for n
    by (induction n) auto
  ultimately have r: "remdups (map (\<lambda>lv. map fst (snd lv)) (curve_vals cs)) = [axis]"
    using assms(3) by simp
  show ?thesis
    unfolding calculate_cryosparc_fscs_def c
    by (simp add: Let_def r split: option.splits)
qed

lemma map_of_columns:
  "map_of (map (\<lambda>lv. (fst lv, f (snd lv))) xs) k = map_option f (map_of xs k)"
  by (induction xs) simp_all

lemma tight_curve_heap4:
  "curve_of env0
     (imul (imul (imul (tensor1 heap4) (sphere_array env0 full4 None))
                 (loose_array env0 full4 (25, 15) 1))
           (tight_array env0 full4 (DilationParams 6 6) 1))
     (imul (imul (imul (tensor2 heap4) (sphere_array env0 full4 None))
                 (loose_array env0 full4 (25, 15) 1))
           (tight_array env0 full4 (DilationParams 6 6) 1)) =
   [(0, Fin 1), (1 / 4, Fin (- 1))]"
  by (subst curve_of_4)
     (simp_all add: imul_def heap4_def env0_def embed_center_def full4_def
        sphere_array_def loose_array_def tight_array_def spec_shell_value_def np_vdot_def)

lemma tight_curve_heap4_pos:
  "curve_of env0
     (imul (imul (imul (tensor1 heap4_pos) (sphere_array env0 full4 None))
                 (loose_array env0 full4 (25, 15) 1))
           (tight_array env0 full4 (DilationParams 6 6) 1))
     (imul (imul (imul (tensor2 heap4_pos) (sphere_array env0 full4 None))
                 (loose_array env0 full4 (25, 15) 1))
           (tight_array env0 full4 (DilationParams 6 6) 1)) =
   [(0, Fin 1), (1 / 4, Fin 1)]"
  by (subst curve_of_4)
     (simp_all add: imul_def heap4_pos_def env0_def embed_center_def full4_def
        sphere_array_def loose_array_def tight_array_def spec_shell_value_def np_vdot_def)

lemma cryosparc_corrected_example:
  "\<exists>cs. snd (cryosparc_curves env0 full4 None (25, 15) (DilationParams 6 6) 1 heap4_pos) = Inr cs
     \<and> map_of (curve_vals cs) ''Tight'' = Some [(0, Fin 1), (1 / 4, Fin 1)]
     \<and> map_of (curve_thresh cs) ''Tight'' = Some (Some (1 / 4))
     \<and> map_of (curve_vals cs) ''Corrected'' = Some [(0, Fin 1), (1 / 4, Fin 0)]
     \<and> map_of (curve_thresh cs) ''Corrected'' = Some None"
proof -
  define tm where "tm = tight_array env0 full4 (DilationParams 6 6) 1"
  define h1 where "h1 = heap_after_curves env0 full4 None (25, 15) (DilationParams 6 6) 1 heap4_pos"
  define tv :: frame where "tv = [(0, Fin 1), (1 / 4, Fin 1)]"
  have D: "shape0 (tensor1 heap4_pos) = 4" by (simp add: heap4_pos_def)
  have h: "even (shape0 (tensor1 heap4_pos))" "0 < shape0 (tensor1 heap4_pos)"
    unfolding D by simp_all
  have t: "DilationParams 6 6 \<noteq> OtherType" by simp
  have v: "curve_of env0
             (imul (imul (imul (tensor1 heap4_pos) (sphere_array env0 full4 None))
                         (loose_array env0 full4 (25, 15) 1))
                   (tight_array env0 full4 (DilationParams 6 6) 1))
             (imul (imul (imul (tensor2 heap4_pos) (sphere_array env0 full4 None))
                         (loose_array env0 full4 (25, 15) 1))
                   (tight_array env0 full4 (DilationParams 6 6) 1)) = tv"
    unfolding tv_def
    by (subst curve_of_4)
       (simp_all add: imul_def heap4_pos_def env0_def embed_center_def full4_def
          sphere_array_def loose_array_def tight_array_def spec_shell_value_def np_vdot_def)
  have th: "snd (get_fsc_thresholds tv 1 False) = Some (1 / 4)"
    by (simp add: tv_def get_fsc_thresholds_def threshold_at_def pf_ge_def)
  have T: "tensor1 h1 = \<lparr>shape0 = 4, vox = (\<lambda>x. 1)\<rparr>" "tensor2 h1 = \<lparr>shape0 = 4, vox = (\<lambda>x. 2)\<rparr>"
    using cryosparc_curves_value(1)[OF h t, of env0 full4 None "(25, 15)" 1]
    by (simp_all add: h1_def imul_def heap4_pos_def env0_def full4_def
          sphere_array_def loose_array_def tight_array_def)
  have tmv: "tm = \<lparr>shape0 = 4, vox = (\<lambda>x. 1)\<rparr>"
    by (simp add: tm_def tight_array_def env0_def full4_def)
  have e1: "even (shape0 (tensor1 h1))" "0 < shape0 (tensor1 h1)" "length tv = shape0 (tensor1 h1) div 2"
    by (simp_all add: T tv_def)
  have pi: "phase_index env0 (3 / 16) (Some tm) h1 = 0"
    by (simp add: phase_index_def env0_def embed_center_def apply_mask_def imul_def T tmv py_int_def)
  have pr: "p_loop env0 (3 / 16) (Some tm) h1 (Suc 0) = Fin 1"
    unfolding p_loop_def loop_volumes_def Let_def pi randomize_phases_def
    using center_not_in_region ring_4_1
    by (simp add: T tmv scramble_outside env0_def embed_center_def apply_mask_def imul_def
          spec_shell_value_def np_vdot_def)
  from correct_fsc_value[OF e1, of env0 "3 / 16" "Some tm"]
  obtain fsc where c: "snd (correct_fsc env0 tv (3 / 16) (Some tm) h1) =
        Inr (zip (pixres_axis (shape0 (tensor1 h1))) fsc)"
    and l: "length fsc = length tv"
    and n: "\<forall>j<length tv. fsc ! j =
          (if 1 \<le> j \<and> phase_index env0 (3 / 16) (Some tm) h1 < int j
           then corrected_value (snd (tv ! j)) (p_loop env0 (3 / 16) (Some tm) h1 j)
           else snd (tv ! j))"
    by blast
  have f0: "fsc ! 0 = Fin 1" using n[rule_format, of 0] by (simp add: tv_def)
  have f1: "fsc ! 1 = Fin 0"
    using n[rule_format, of 1] pr pi by (simp add: tv_def corrected_value_def)
  have "length fsc = 2" using l by (simp add: tv_def)
  then have fsc: "fsc = [Fin 1, Fin 0]"
    using f0 f1 by (cases fsc; cases "tl fsc") auto
  have c': "snd (correct_fsc env0 tv (3 / 16) (Some tm) h1) = Inr [(0, Fin 1), (1 / 4, Fin 0)]"
    unfolding c fsc by (simp add: T pixres_axis_def upt2)
  have th2: "snd (get_fsc_thresholds [(0, Fin 1), (1 / 4, Fin 0)] 1 False) = None"
    by (simp add: get_fsc_thresholds_def threshold_at_def pf_ge_def)
  note V = cryosparc_curves_value(2)[OF h t, of env0 full4 None "(25, 15)" 1,
      unfolded v th option.case, folded tm_def h1_def]
  have q: "0.75 * (1 / 4) = (3 / 16 :: real)" by simp
  from V c' th2 th show ?thesis
    unfolding q by (auto simp: tv_def)
qed

text \<open>
  Claim C6 (the code fails it). A run of \<^verbatim>\<open>calculate_cryosparc_fscs\<close> on half-maps of even
  positive side \<open>D\<close>, with a tight mask given as parameters or as an array. When the four
  curves are computed the half-map tensors hold \<open>t1\<close> and \<open>t2\<close>: the caller's half-maps
  multiplied in place by the spherical, the loose and the tight mask. With \<open>t\<close> the 0.143
  threshold of the Tight curve:

  \<^item> if \<open>t\<close> is defined, the Corrected curve is what \<^verbatim>\<open>correct_fsc\<close> returns for the Tight
    curve, the randomization threshold \<open>0.75 * t\<close> and the Tight mask, called on \<open>t1\<close> and
    \<open>t2\<close> (which it multiplies by the Tight mask once more), and the Corrected threshold
    is extracted from that curve;
  \<^item> otherwise the Corrected curve is the Tight curve and the Corrected threshold is
    undefined like the Tight one; the run then returns its table exactly when no plot
    file is given, and with a plot file it raises the TypeError of \<^verbatim>\<open>1 / None\<close> (line 292);
  \<^item> in general the run raises that TypeError when a plot file is given and one of the five
    thresholds is undefined, and otherwise returns the table of the five curves over the
    axis \<open>i / D\<close>.
\<close>

theorem calculate_cryosparc_fscs_corrected:
  fixes E :: "'g env" and full_vol :: "real tensor" and sphere_mask :: "real tensor option"
    and loose_mask :: "int \<times> int" and tight_mask :: tight_mask_arg and Apix_val :: real
    and out_file plot_file :: "string option" and h0 :: "'g heap"
  assumes "even (shape0 (tensor1 h0))" and "0 < shape0 (tensor1 h0)" and "tight_mask \<noteq> OtherType"
  defines "sm \<equiv> sphere_array E full_vol sphere_mask"
    and "lm \<equiv> loose_array E full_vol loose_mask Apix_val"
    and "tm \<equiv> tight_array E full_vol tight_mask Apix_val"
  defines "t1 \<equiv> imul (imul (imul (tensor1 h0) sm) lm) tm"
    and "t2 \<equiv> imul (imul (imul (tensor2 h0) sm) lm) tm"
  defines "tight_vals \<equiv> curve_of E t1 t2"
  defines "run \<equiv> snd (calculate_cryosparc_fscs E full_vol sphere_mask loose_mask tight_mask
                        Apix_val out_file plot_file h0)"
  shows "\<exists>cs. snd (cryosparc_curves E full_vol sphere_mask loose_mask tight_mask Apix_val h0) = Inr cs
     \<and> map_of (curve_vals cs) ''Tight'' = Some tight_vals
     \<and> map_of (curve_thresh cs) ''Tight'' = Some (snd (get_fsc_thresholds tight_vals Apix_val False))
     \<and> (case snd (get_fsc_thresholds tight_vals Apix_val False) of
           Some t \<Rightarrow>
             (\<exists>corr. snd (correct_fsc E tight_vals (0.75 * t) (Some tm)
                             (h0\<lparr>tensor1 := t1, tensor2 := t2\<rparr>)) = Inr corr
                \<and> map_of (curve_vals cs) ''Corrected'' = Some corr
                \<and> map_of (curve_thresh cs) ''Corrected'' =
                    Some (snd (get_fsc_thresholds corr Apix_val False)))
         | None \<Rightarrow>
             map_of (curve_vals cs) ''Corrected'' = Some tight_vals
           \<and> map_of (curve_thresh cs) ''Corrected'' = Some None
           \<and> (plot_file \<noteq> None) = (run = Inl TypeError_none_operand))
     \<and> run =
         (if plot_file \<noteq> None \<and> list_ex (\<lambda>lt. snd lt = None) (curve_thresh cs)
          then Inl TypeError_none_operand
          else Inr \<lparr>tbl_index = pixres_axis (shape0 (tensor1 h0)),
                    tbl_columns = map (\<lambda>lv. (fst lv, map snd (snd lv))) (curve_vals cs)\<rparr>)"
proof -
  define D where "D = shape0 (tensor1 h0)"
  define h1 where "h1 = heap_after_curves E full_vol sphere_mask loose_mask tight_mask Apix_val h0"
  define vals where "vals =
      [(''No Mask'', curve_of E (tensor1 h0) (tensor2 h0)),
       (''Spherical'', curve_of E (imul (tensor1 h0) sm) (imul (tensor2 h0) sm)),
       (''Loose'', curve_of E (imul (imul (tensor1 h0) sm) lm) (imul (imul (tensor2 h0) sm) lm)),
       (''Tight'', tight_vals)]"
  define ths where "ths = map (\<lambda>lv. (fst lv, snd (get_fsc_thresholds (snd lv) Apix_val False))) vals"
  have mv: "map_of (vals @ more) ''Tight'' = Some tight_vals"
    "map_of (vals @ [(''Corrected'', c)]) ''Corrected'' = Some c" for more c
    by (simp_all add: vals_def)
  have mt: "map_of (ths @ more') ''Tight'' = Some (snd (get_fsc_thresholds tight_vals Apix_val False))"
    "map_of (ths @ [(''Corrected'', c')]) ''Corrected'' = Some c'" for more' c'
    by (simp_all add: ths_def vals_def)
  note T = cryosparc_curves_value(1)[OF assms(1,2,3), of E full_vol sphere_mask loose_mask Apix_val,
      folded sm_def lm_def tm_def, folded t1_def t2_def, folded h1_def]
  note V = cryosparc_curves_value(2)[OF assms(1,2,3), of E full_vol sphere_mask loose_mask Apix_val,
      folded sm_def lm_def tm_def, folded t1_def t2_def, folded tight_vals_def, folded vals_def,
      folded ths_def, folded h1_def]
  have sh: "shape0 t1 = D" by (simp add: t1_def shape0_imul D_def)
  have e1: "even (shape0 (tensor1 h1))" "0 < shape0 (tensor1 h1)"
    using assms(1,2) T by (simp_all add: sh D_def)
  have len: "length tight_vals = shape0 (tensor1 h1) div 2"
    using length_curve_of[of t1 E t2] assms(1,2) T by (simp add: tight_vals_def sh D_def)
  have same: "snd (correct_fsc E fv thr m h1) =
              snd (correct_fsc E fv thr m (h0\<lparr>tensor1 := t1, tensor2 := t2\<rparr>))" for fv thr m
  proof (rule correct_fsc_same_inputs)
    show "tensor1 h1 = tensor1 (h0\<lparr>tensor1 := t1, tensor2 := t2\<rparr>)" using T by simp
    show "tensor2 h1 = tensor2 (h0\<lparr>tensor1 := t1, tensor2 := t2\<rparr>)" using T by simp
    show "rng h1 = rng (h0\<lparr>tensor1 := t1, tensor2 := t2\<rparr>)"
      by (simp add: h1_def heap_after_curves_rng)
  qed
  have tax: "map fst tight_vals = pixres_axis D"
    unfolding tight_vals_def D_def
    using map_fst_curve_of[of t1 E t2] assms(1,2) by (simp add: t1_def shape0_imul)
  have ax: "list_all (\<lambda>lv. map fst (snd lv) = pixres_axis D) vals"
    using assms(1,2) tax
    by (simp add: vals_def map_fst_curve_of shape0_imul D_def)
  show ?thesis
  proof (cases "snd (get_fsc_thresholds tight_vals Apix_val False)")
    case None
    define cs where "cs = \<lparr>curve_vals = vals @ [(''Corrected'', tight_vals)],
                            curve_thresh = ths @ [(''Corrected'', None)]\<rparr>"
    have r: "snd (cryosparc_curves E full_vol sphere_mask loose_mask tight_mask Apix_val h0) = Inr cs"
      using V None by (simp add: cs_def)
    have ax': "list_all (\<lambda>lv. map fst (snd lv) = pixres_axis D) (curve_vals cs)"
      using ax tax by (simp add: cs_def)
    have ne: "curve_vals cs \<noteq> []" by (simp add: cs_def)
    have ex: "list_ex (\<lambda>lt. snd lt = None) (curve_thresh cs)"
      by (simp add: cs_def)
    have run: "run =
         (if plot_file \<noteq> None \<and> list_ex (\<lambda>lt. snd lt = None) (curve_thresh cs)
          then Inl TypeError_none_operand
          else Inr \<lparr>tbl_index = pixres_axis D,
                    tbl_columns = map (\<lambda>lv. (fst lv, map snd (snd lv))) (curve_vals cs)\<rparr>)"
      unfolding run_def by (rule calculate_cryosparc_fscs_result[OF r ax' ne])
    have "(plot_file \<noteq> None) = (run = Inl TypeError_none_operand)"
      unfolding run using ex by simp
    then show ?thesis
      using run
      by (intro exI[of _ cs]) (simp add: r cs_def mv mt None D_def del: map_of_append)
  next
    case (Some t)
    with V obtain corr where
      c: "snd (correct_fsc E tight_vals (0.75 * t) (Some tm) h1) = Inr corr"
      and r0: "snd (cryosparc_curves E full_vol sphere_mask loose_mask tight_mask Apix_val h0) =
         Inr \<lparr>curve_vals = vals @ [(''Corrected'', corr)],
              curve_thresh = ths @ [(''Corrected'', snd (get_fsc_thresholds corr Apix_val False))]\<rparr>"
      by auto
    define cs where "cs = \<lparr>curve_vals = vals @ [(''Corrected'', corr)],
              curve_thresh = ths @ [(''Corrected'', snd (get_fsc_thresholds corr Apix_val False))]\<rparr>"
    have r: "snd (cryosparc_curves E full_vol sphere_mask loose_mask tight_mask Apix_val h0) = Inr cs"
      using r0 by (simp add: cs_def)
    have c': "snd (correct_fsc E tight_vals (0.75 * t) (Some tm)
                 (h0\<lparr>tensor1 := t1, tensor2 := t2\<rparr>)) = Inr corr"
      using c same by simp
    have "map fst corr = pixres_axis (shape0 (tensor1 h1))"
      using map_fst_correct_fsc[OF e1 len c] .
    then have ax': "list_all (\<lambda>lv. map fst (snd lv) = pixres_axis D) (curve_vals cs)"
      using ax T by (simp add: cs_def sh)
    have ne: "curve_vals cs \<noteq> []" by (simp add: cs_def)
    have run: "run =
         (if plot_file \<noteq> None \<and> list_ex (\<lambda>lt. snd lt = None) (curve_thresh cs)
          then Inl TypeError_none_operand
          else Inr \<lparr>tbl_index = pixres_axis D,
                    tbl_columns = map (\<lambda>lv. (fst lv, map snd (snd lv))) (curve_vals cs)\<rparr>)"
      unfolding run_def by (rule calculate_cryosparc_fscs_result[OF r ax' ne])
    have "\<exists>corr'. snd (correct_fsc E tight_vals (0.75 * t) (Some tm)
                       (h0\<lparr>tensor1 := t1, tensor2 := t2\<rparr>)) = Inr corr'
                \<and> map_of (curve_vals cs) ''Corrected'' = Some corr'
                \<and> map_of (curve_thresh cs) ''Corrected'' =
                    Some (snd (get_fsc_thresholds corr' Apix_val False))"
      using c' by (intro exI[of _ corr]) (simp add: cs_def mv mt del: map_of_append)
    then show ?thesis
      using run
      by (intro exI[of _ cs]) (simp add: r cs_def mv mt Some D_def del: map_of_append)
  qed
qed

theorem calculate_cryosparc_fscs_corrected_witness:
  "snd (calculate_cryosparc_fscs env0 full4 None (25, 15) (DilationParams 6 6) 1 None
          (Some ''fsc-plot.png'') heap4) = Inl TypeError_none_operand
   \<and> (\<exists>tbl. snd (calculate_cryosparc_fscs env0 full4 None (25, 15) (DilationParams 6 6) 1 None
                    None heap4) = Inr tbl
        \<and> tbl_index tbl = [0, 1 / 4]
        \<and> map_of (tbl_columns tbl) ''Tight'' = Some [Fin 1, Fin (- 1)]
        \<and> map_of (tbl_columns tbl) ''Corrected'' = Some [Fin 1, Fin (- 1)])
   \<and> (\<exists>tbl. snd (calculate_cryosparc_fscs env0 full4 None (25, 15) (DilationParams 6 6) 1 None
                    None heap4_pos) = Inr tbl
        \<and> tbl_index tbl = [0, 1 / 4]
        \<and> map_of (tbl_columns tbl) ''Tight'' = Some [Fin 1, Fin 1]
        \<and> map_of (tbl_columns tbl) ''Corrected'' = Some [Fin 1, Fin 0])
   \<and> snd (correct_fsc env0 [(0, Fin 1), (1 / 4, Fin 1)] (3 / 16)
            (Some \<lparr>shape0 = 4, vox = (\<lambda>x. 1)\<rparr>)
            (heap4_pos\<lparr>tensor1 := \<lparr>shape0 = 4, vox = (\<lambda>x. 1)\<rparr>,
                       tensor2 := \<lparr>shape0 = 4, vox = (\<lambda>x. 2)\<rparr>\<rparr>)) =
       Inr [(0, Fin 1), (1 / 4, Fin 0)]"
  (is "?A \<and> ?B \<and> ?C \<and> ?D")
proof -
  have h: "even (shape0 (tensor1 heap4))" "0 < shape0 (tensor1 heap4)"
    by (simp_all add: heap4_def)
  have hp: "even (shape0 (tensor1 heap4_pos))" "0 < shape0 (tensor1 heap4_pos)"
    by (simp_all add: heap4_pos_def)
  have t: "DilationParams 6 6 \<noteq> OtherType" by simp
  have th: "snd (get_fsc_thresholds [(0, Fin 1), (1 / 4, Fin (- 1))] 1 False) = None"
    by (simp add: get_fsc_thresholds_def threshold_at_def pf_ge_def)
  have thp: "snd (get_fsc_thresholds [(0, Fin 1), (1 / 4, Fin 1)] 1 False) = Some (1 / 4)"
    by (simp add: get_fsc_thresholds_def threshold_at_def pf_ge_def)
  have ax: "pixres_axis 4 = [0, 1 / 4]"
    by (simp add: pixres_axis_def upt2)
  have q: "0.75 * (1 / 4) = (3 / 16 :: real)" by simp
  have a: ?A
    using calculate_cryosparc_fscs_corrected[OF h t, where E = env0 and full_vol = full4
        and sphere_mask = None and loose_mask = "(25, 15)" and Apix_val = 1 and out_file = None
        and plot_file = "Some ''fsc-plot.png''"]
    unfolding tight_curve_heap4 th by auto
  from calculate_cryosparc_fscs_corrected[OF h t, where E = env0 and full_vol = full4
        and sphere_mask = None and loose_mask = "(25, 15)" and Apix_val = 1 and out_file = None
        and plot_file = None,
      unfolded tight_curve_heap4 th option.case]
  obtain cs :: curves where
    tt: "map_of (curve_vals cs) ''Tight'' = Some [(0, Fin 1), (1 / 4, Fin (- 1))]"
    and cc: "map_of (curve_vals cs) ''Corrected'' = Some [(0, Fin 1), (1 / 4, Fin (- 1))]"
    and run: "snd (calculate_cryosparc_fscs env0 full4 None (25, 15) (DilationParams 6 6) 1 None
                    None heap4) =
         Inr \<lparr>tbl_index = pixres_axis (shape0 (tensor1 heap4)),
              tbl_columns = map (\<lambda>lv. (fst lv, map snd (snd lv))) (curve_vals cs)\<rparr>"
    by auto
  have b: ?B
    unfolding run using tt cc ax by (simp add: map_of_columns heap4_def)
  from calculate_cryosparc_fscs_corrected[OF hp t, where E = env0 and full_vol = full4
        and sphere_mask = None and loose_mask = "(25, 15)" and Apix_val = 1 and out_file = None
        and plot_file = None,
      unfolded tight_curve_heap4_pos thp option.case q]
  obtain cs :: curves and corr :: frame where
    r: "snd (cryosparc_curves env0 full4 None (25, 15) (DilationParams 6 6) 1 heap4_pos) = Inr cs"
    and tt: "map_of (curve_vals cs) ''Tight'' = Some [(0, Fin 1), (1 / 4, Fin 1)]"
    and co: "snd (correct_fsc env0 [(0, Fin 1), (1 / 4, Fin 1)] (3 / 16)
                (Some (tight_array env0 full4 (DilationParams 6 6) 1))
                (heap4_pos\<lparr>tensor1 := imul (imul (imul (tensor1 heap4_pos) (sphere_array env0 full4 None))
                                   (loose_array env0 full4 (25, 15) 1))
                             (tight_array env0 full4 (DilationParams 6 6) 1),
                    tensor2 := imul (imul (imul (tensor2 heap4_pos) (sphere_array env0 full4 None))
                                   (loose_array env0 full4 (25, 15) 1))
                             (tight_array env0 full4 (DilationParams 6 6) 1)\<rparr>)) = Inr corr"
    and cc: "map_of (curve_vals cs) ''Corrected'' = Some corr"
    and run: "snd (calculate_cryosparc_fscs env0 full4 None (25, 15) (DilationParams 6 6) 1 None
                    None heap4_pos) =
         Inr \<lparr>tbl_index = pixres_axis (shape0 (tensor1 heap4_pos)),
              tbl_columns = map (\<lambda>lv. (fst lv, map snd (snd lv))) (curve_vals cs)\<rparr>"
    by auto
  have corr: "corr = [(0, Fin 1), (1 / 4, Fin 0)]"
    using cryosparc_corrected_example r cc by auto
  have c: ?C
    unfolding run using tt cc ax by (simp add: map_of_columns heap4_pos_def corr)
  have d: ?D
    using co unfolding corr
    by (simp add: imul_def heap4_pos_def env0_def full4_def
          sphere_array_def loose_array_def tight_array_def)
  from a b c d show ?thesis by blast
qed

end
